theory Spec2Isabelle
  imports Main "HOL-Library.Word"
begin

section \<open>Online scrub of XFS quota files (fs/xfs/scrub/quota.c)\<close>

text \<open>
  A shallow embedding of \<^verbatim>\<open>xchk_quota_item_bmap\<close>, \<^verbatim>\<open>xchk_quota_item_timer\<close>,
  \<^verbatim>\<open>xchk_quota_item\<close>, \<^verbatim>\<open>xchk_quota_data_fork\<close> and \<^verbatim>\<open>xchk_quota\<close>.
  The scrub context \<^verbatim>\<open>struct xfs_scrub\<close> is threaded through every call and returned
  updated; a function that returns an \<^verbatim>\<open>int\<close> error returns it next to the state.
  Everything the scrubber does to the outside (findings, lock operations) is appended
  to a trace kept in the scrub context, in program order. \<^verbatim>\<open>xchk_quota_to_dqtype\<close> and
  \<^verbatim>\<open>xchk_setup_quota\<close> run before the scrub proper and are not part of the model: the
  model starts where \<^verbatim>\<open>xchk_quota\<close> is entered, with the inode lock that the setup took.
\<close>

subsection \<open>Data\<close>

type_synonym u32 = "32 word"
type_synonym u64 = "64 word"
type_synonym s64 = "64 word"

text \<open>\<^verbatim>\<open>struct xfs_dquot_res\<close>: one resource domain of a dquot. The counters and limits
  are \<^verbatim>\<open>xfs_qcnt_t\<close> (unsigned 64 bit); the timer is a \<^verbatim>\<open>time64_t\<close> that the scrubber only
  tests against zero.\<close>

record xfs_dquot_res =
  count :: u64
  hardlimit :: u64
  softlimit :: u64
  timer :: s64

text \<open>\<^verbatim>\<open>struct xfs_dquot\<close>, the fields that the scrubber reads.\<close>

record xfs_dquot =
  q_id :: u32
  q_blkno :: s64
  q_fileoffset :: u64
  q_blk :: xfs_dquot_res
  q_ino :: xfs_dquot_res
  q_rtb :: xfs_dquot_res

datatype xfs_exntst = XFS_EXT_NORM | XFS_EXT_UNWRITTEN

text \<open>\<^verbatim>\<open>struct xfs_bmbt_irec\<close>: one in-core extent mapping.\<close>

record xfs_bmbt_irec =
  br_startoff :: u64
  br_startblock :: u64
  br_blockcount :: u64
  br_state :: xfs_exntst

text \<open>The fields of \<^verbatim>\<open>struct xfs_mount\<close> (superblock, inode geometry, feature bits and
  \<^verbatim>\<open>m_quotainfo\<close>) that the scrubber reads. \<open>qi_dqperchunk\<close> is the number of dquots in a
  block of the quota file, an \<^verbatim>\<open>unsigned int\<close> that is at least 1 on every mount; the
  scrubber divides by it.\<close>

record xfs_mount =
  sb_dblocks :: u64
  sb_rblocks :: u64
  maxicount :: u64
  has_reflink :: bool
  qi_dqperchunk :: u32

datatype oflag = XFS_SCRUB_OFLAG_CORRUPT | XFS_SCRUB_OFLAG_WARNING

datatype ilock = XFS_ILOCK_EXCL | XFS_ILOCK_SHARED

text \<open>What the scrubber does to the outside, in program order: a finding reported at a
  file offset of the data fork, an operation on the lock of the dquot with the given id,
  or an operation on the inode lock of the quota file.\<close>

datatype event =
    Corrupt u64
  | Warning u64
  | DqLock u32
  | DqUnlock u32
  | DqPut u32
  | ILock "ilock set"
  | IUnlock "ilock set"

text \<open>\<^verbatim>\<open>struct xfs_scrub\<close>: the mount, the output flags \<^verbatim>\<open>sm->sm_flags\<close> (a bit mask, here
  the set of bits that are set), the inode lock flags the scrubber holds, the trace, and
  two counters that index the readings of the two live values the scrubber polls (the
  pending fatal signal and the per-cpu inode counter).\<close>

record xfs_scrub =
  mp :: xfs_mount
  sm_flags :: "oflag set"
  ilock_flags :: "ilock set"
  trace :: "event list"
  polls :: nat
  icount_reads :: nat

text \<open>\<^verbatim>\<open>struct xchk_quota_info\<close>. Its \<^verbatim>\<open>sc\<close> pointer is the scrub context that the model
  threads through, so only \<^verbatim>\<open>last_id\<close> remains.\<close>

record xchk_quota_info =
  last_id :: u32

subsection \<open>Collaborators that are not part of quota.c\<close>

text \<open>The helpers below are called by quota.c and defined elsewhere in the kernel. The
  model takes them as parameters, so every theorem holds for each way they may behave:
  \<^item> \<open>fatal_signal_pending n\<close>: whether the \<open>n\<close>-th poll of the termination check sees
    a pending signal, and \<open>terminate_errno\<close>, the error that the check stores then;
  \<^item> \<open>xfs_verify_fileoff\<close>, \<open>xfs_verify_fsbno\<close>, \<open>XFS_FSB_TO_DADDR\<close> for the mount;
  \<^item> \<open>xfs_bmap_is_written_extent\<close>;
  \<^item> \<open>xfs_bmapi_read off\<close>: the lookup of one block at \<open>off\<close> in the data fork of the
    quota inode: the error, the mapping and \<open>nmaps\<close>;
  \<^item> \<open>percpu_counter_sum n\<close>: the \<open>n\<close>-th reading of \<^verbatim>\<open>mp->m_icount\<close>;
  \<^item> \<open>xchk_metadata_inode_forks\<close>: the generic fork scrubber;
  \<^item> \<open>xchk_file_op_error off e\<close>: what \<^verbatim>\<open>xchk_fblock_process_error\<close> makes of a nonzero
    error \<open>e\<close>: the error it leaves and the output flags it sets.\<close>

record externs =
  fatal_signal_pending :: "nat \<Rightarrow> bool"
  terminate_errno :: int
  xfs_verify_fileoff :: "u64 \<Rightarrow> bool"
  xfs_verify_fsbno :: "u64 \<Rightarrow> bool"
  XFS_FSB_TO_DADDR :: "u64 \<Rightarrow> s64"
  xfs_bmap_is_written_extent :: "xfs_bmbt_irec \<Rightarrow> bool"
  xfs_bmapi_read :: "u64 \<Rightarrow> int \<times> xfs_bmbt_irec \<times> int"
  percpu_counter_sum :: "nat \<Rightarrow> s64"
  xchk_metadata_inode_forks :: "xfs_scrub \<Rightarrow> int \<times> xfs_scrub"
  xchk_file_op_error :: "u64 \<Rightarrow> int \<Rightarrow> int \<times> oflag set"

definition ECANCELED :: int where
  "ECANCELED = 125"

text \<open>The largest quota id: ids are unsigned 32-bit numbers.\<close>

definition XFS_DQ_ID_MAX :: u32 where
  "XFS_DQ_ID_MAX = - 1"

text \<open>Modelled from the spec: the finding sink \<^verbatim>\<open>xchk_fblock_set_corrupt\<close> (scrub/common.c
  is missing). \<open>reportCorrupt(offset)\<close> accumulates into the outcome of the run at once:
  it sets the corrupt flag and records the finding with its offset.\<close>

definition xchk_fblock_set_corrupt :: "u64 \<Rightarrow> xfs_scrub \<Rightarrow> xfs_scrub" where
  "xchk_fblock_set_corrupt offset sc =
     sc\<lparr>sm_flags := insert XFS_SCRUB_OFLAG_CORRUPT (sm_flags sc),
        trace := trace sc @ [Corrupt offset]\<rparr>"

text \<open>Modelled from the spec: the finding sink \<^verbatim>\<open>xchk_fblock_set_warning\<close> (scrub/common.c
  is missing). \<open>reportWarning(offset)\<close> sets the warning flag and records the finding.\<close>

definition xchk_fblock_set_warning :: "u64 \<Rightarrow> xfs_scrub \<Rightarrow> xfs_scrub" where
  "xchk_fblock_set_warning offset sc =
     sc\<lparr>sm_flags := insert XFS_SCRUB_OFLAG_WARNING (sm_flags sc),
        trace := trace sc @ [Warning offset]\<rparr>"

text \<open>Modelled from the spec: the lock primitives \<^verbatim>\<open>xchk_ilock\<close> and \<^verbatim>\<open>xchk_iunlock\<close>
  (scrub/common.c is missing): shared or exclusive acquire and release on the quota
  file, tracked in \<^verbatim>\<open>sc->ilock_flags\<close>.\<close>

definition xchk_ilock :: "ilock set \<Rightarrow> xfs_scrub \<Rightarrow> xfs_scrub" where
  "xchk_ilock flags sc =
     sc\<lparr>ilock_flags := ilock_flags sc \<union> flags, trace := trace sc @ [ILock flags]\<rparr>"

definition xchk_iunlock :: "ilock set \<Rightarrow> xfs_scrub \<Rightarrow> xfs_scrub" where
  "xchk_iunlock flags sc =
     sc\<lparr>ilock_flags := ilock_flags sc - flags, trace := trace sc @ [IUnlock flags]\<rparr>"

text \<open>Modelled from the spec: the per-record lock primitives \<^verbatim>\<open>xfs_dqlock\<close>,
  \<^verbatim>\<open>xfs_dqunlock\<close> and the release \<^verbatim>\<open>xfs_qm_dqput\<close> of a record that the iterator handed
  over (xfs_dquot.h and xfs_dquot.c are missing). Each is an operation on the lock of
  the dquot, which the trace names by its id.\<close>

definition xfs_dqlock :: "xfs_dquot \<Rightarrow> xfs_scrub \<Rightarrow> xfs_scrub" where
  "xfs_dqlock dq sc = sc\<lparr>trace := trace sc @ [DqLock (q_id dq)]\<rparr>"

definition xfs_dqunlock :: "xfs_dquot \<Rightarrow> xfs_scrub \<Rightarrow> xfs_scrub" where
  "xfs_dqunlock dq sc = sc\<lparr>trace := trace sc @ [DqUnlock (q_id dq)]\<rparr>"

definition xfs_qm_dqput :: "xfs_dquot \<Rightarrow> xfs_scrub \<Rightarrow> xfs_scrub" where
  "xfs_qm_dqput dq sc = sc\<lparr>trace := trace sc @ [DqPut (q_id dq)]\<rparr>"

text \<open>Modelled from the spec: the cooperative termination check \<^verbatim>\<open>xchk_should_terminate\<close>
  (scrub/common.h is missing): a polled signal. When the signal is pending the check
  says stop and stores an error unless one is already there.\<close>

definition xchk_should_terminate :: "externs \<Rightarrow> xfs_scrub \<Rightarrow> int \<Rightarrow> bool \<times> int \<times> xfs_scrub" where
  "xchk_should_terminate ext sc error =
     (if fatal_signal_pending ext (polls sc)
      then (True, if error = 0 then terminate_errno ext else error, sc\<lparr>polls := Suc (polls sc)\<rparr>)
      else (False, error, sc\<lparr>polls := Suc (polls sc)\<rparr>))"

text \<open>Modelled from the spec: \<^verbatim>\<open>xchk_fblock_process_error\<close> (scrub/common.c is missing).
  It answers whether the caller may go on: with no error it answers yes and changes
  nothing; an error makes it answer no, and which error it leaves and which output flags
  it sets is left to the parameter \<open>xchk_file_op_error\<close> (the spec propagates the error
  unchanged and sets no flag).\<close>

definition xchk_fblock_process_error ::
  "externs \<Rightarrow> xfs_scrub \<Rightarrow> u64 \<Rightarrow> int \<Rightarrow> bool \<times> int \<times> xfs_scrub" where
  "xchk_fblock_process_error ext sc offset error =
     (if error = 0 then (True, error, sc)
      else case xchk_file_op_error ext offset error of
        (error, flags) \<Rightarrow> (False, error, sc\<lparr>sm_flags := sm_flags sc \<union> flags\<rparr>))"

text \<open>The C statement \<^verbatim>\<open>if (c) f(sc, ...);\<close> as a state transformer.\<close>

definition c_if :: "bool \<Rightarrow> (xfs_scrub \<Rightarrow> xfs_scrub) \<Rightarrow> xfs_scrub \<Rightarrow> xfs_scrub" where
  "c_if c f sc = (if c then f sc else sc)"

subsection \<open>The functions of quota.c\<close>

text \<open>\<^verbatim>\<open>xchk_quota_item_bmap\<close>, lines 81--119.\<close>

definition xchk_quota_item_bmap ::
  "externs \<Rightarrow> xfs_scrub \<Rightarrow> xfs_dquot \<Rightarrow> u64 \<Rightarrow> int \<times> xfs_scrub" where
  "xchk_quota_item_bmap ext sc dq offset =
     (if \<not> xfs_verify_fileoff ext offset then (0, xchk_fblock_set_corrupt offset sc)
      else if q_fileoffset dq \<noteq> offset then (0, xchk_fblock_set_corrupt offset sc)
      else case xfs_bmapi_read ext offset of (error, irec, nmaps) \<Rightarrow>
        if error \<noteq> 0 then (error, sc)
        else if nmaps \<noteq> 1 then (0, xchk_fblock_set_corrupt offset sc)
        else
          let sc = c_if (\<not> xfs_verify_fsbno ext (br_startblock irec))
                     (xchk_fblock_set_corrupt offset) sc;
              sc = c_if (XFS_FSB_TO_DADDR ext (br_startblock irec) \<noteq> q_blkno dq)
                     (xchk_fblock_set_corrupt offset) sc;
              sc = c_if (\<not> xfs_bmap_is_written_extent ext irec)
                     (xchk_fblock_set_corrupt offset) sc
          in (0, sc))"

text \<open>\<^verbatim>\<open>xchk_quota_item_timer\<close>, lines 122--136.\<close>

definition xchk_quota_item_timer :: "u64 \<Rightarrow> xfs_dquot_res \<Rightarrow> xfs_scrub \<Rightarrow> xfs_scrub" where
  "xchk_quota_item_timer offset res sc =
     (if (softlimit res \<noteq> 0 \<and> count res > softlimit res) \<or>
         (hardlimit res \<noteq> 0 \<and> count res > hardlimit res)
      then c_if (timer res = 0) (xchk_fblock_set_corrupt offset) sc
      else c_if (timer res \<noteq> 0) (xchk_fblock_set_corrupt offset) sc)"

text \<open>\<^verbatim>\<open>xchk_quota_item\<close>, lines 139--258. The division of line 169 is a division of two
  32-bit unsigned numbers, widened to \<^verbatim>\<open>xfs_fileoff_t\<close>; the kernel never has
  \<^verbatim>\<open>qi_dqperchunk = 0\<close>. \<^verbatim>\<open>goto out\<close> for the root dquot skips lines 237--251.\<close>

definition xchk_quota_item ::
  "externs \<Rightarrow> xchk_quota_info \<Rightarrow> xfs_scrub \<Rightarrow> xfs_dquot \<Rightarrow> int \<times> xchk_quota_info \<times> xfs_scrub" where
  "xchk_quota_item ext sqi sc dq =
     (case xchk_should_terminate ext sc 0 of
        (True, error, sc) \<Rightarrow> (error, sqi, sc)
      | (False, error, sc) \<Rightarrow>
          let sc = xfs_dqunlock dq sc;
              sc = xchk_ilock {XFS_ILOCK_SHARED} sc;
              sc = xfs_dqlock dq sc;
              offset = ucast (q_id dq div qi_dqperchunk (mp sc));
              sc = c_if (q_id dq \<noteq> 0 \<and> q_id dq \<le> last_id sqi)
                     (xchk_fblock_set_corrupt offset) sc;
              sqi = sqi\<lparr>last_id := q_id dq\<rparr>
          in (case xchk_quota_item_bmap ext sc dq offset of (error, sc) \<Rightarrow>
          let sc = xchk_iunlock {XFS_ILOCK_SHARED} sc
          in (case xchk_fblock_process_error ext sc offset error of
            (False, error, sc) \<Rightarrow> (error, sqi, sc)
          | (True, error, sc) \<Rightarrow>
          let sc = c_if (hardlimit (q_blk dq) > sb_dblocks (mp sc))
                     (xchk_fblock_set_warning offset) sc;
              sc = c_if (softlimit (q_blk dq) > hardlimit (q_blk dq))
                     (xchk_fblock_set_corrupt offset) sc;
              sc = c_if (hardlimit (q_ino dq) > maxicount (mp sc))
                     (xchk_fblock_set_warning offset) sc;
              sc = c_if (softlimit (q_ino dq) > hardlimit (q_ino dq))
                     (xchk_fblock_set_corrupt offset) sc;
              sc = c_if (hardlimit (q_rtb dq) > sb_rblocks (mp sc))
                     (xchk_fblock_set_warning offset) sc;
              sc = c_if (softlimit (q_rtb dq) > hardlimit (q_rtb dq))
                     (xchk_fblock_set_corrupt offset) sc;
              fs_icount = percpu_counter_sum ext (icount_reads sc);
              sc = sc\<lparr>icount_reads := Suc (icount_reads sc)\<rparr>;
              sc = (if has_reflink (mp sc) then
                      let sc = c_if (sb_dblocks (mp sc) < count (q_blk dq))
                                 (xchk_fblock_set_warning offset) sc;
                          sc = c_if (sb_rblocks (mp sc) < count (q_rtb dq))
                                 (xchk_fblock_set_warning offset) sc
                      in sc
                    else
                      let sc = c_if (sb_dblocks (mp sc) < count (q_blk dq))
                                 (xchk_fblock_set_corrupt offset) sc;
                          sc = c_if (sb_rblocks (mp sc) < count (q_rtb dq))
                                 (xchk_fblock_set_corrupt offset) sc
                      in sc);
              sc = c_if (count (q_ino dq) > fs_icount)
                     (xchk_fblock_set_corrupt offset) sc;
              sc = (if q_id dq = 0 then sc
                    else
                      let sc = c_if (hardlimit (q_blk dq) \<noteq> 0 \<and>
                                     count (q_blk dq) > hardlimit (q_blk dq))
                                 (xchk_fblock_set_warning offset) sc;
                          sc = c_if (hardlimit (q_ino dq) \<noteq> 0 \<and>
                                     count (q_ino dq) > hardlimit (q_ino dq))
                                 (xchk_fblock_set_warning offset) sc;
                          sc = c_if (hardlimit (q_rtb dq) \<noteq> 0 \<and>
                                     count (q_rtb dq) > hardlimit (q_rtb dq))
                                 (xchk_fblock_set_warning offset) sc;
                          sc = xchk_quota_item_timer offset (q_blk dq) sc;
                          sc = xchk_quota_item_timer offset (q_ino dq) sc;
                          sc = xchk_quota_item_timer offset (q_rtb dq) sc
                      in sc)
          in if XFS_SCRUB_OFLAG_CORRUPT \<in> sm_flags sc then (- ECANCELED, sqi, sc)
             else (0, sqi, sc))))"

text \<open>The loop of \<^verbatim>\<open>xchk_quota_data_fork\<close>, lines 280--295, over the extents of the data
  fork in the order of \<^verbatim>\<open>for_each_xfs_iext\<close>. The sum of line 290 is a 64-bit sum.\<close>

fun xchk_quota_data_fork_loop ::
  "externs \<Rightarrow> u64 \<Rightarrow> xfs_bmbt_irec list \<Rightarrow> int \<Rightarrow> xfs_scrub \<Rightarrow> int \<times> xfs_scrub" where
  "xchk_quota_data_fork_loop ext max_dqid_off [] error sc = (error, sc)"
| "xchk_quota_data_fork_loop ext max_dqid_off (irec # rest) error sc =
     (case xchk_should_terminate ext sc error of
        (True, error, sc) \<Rightarrow> (error, sc)
      | (False, error, sc) \<Rightarrow>
          if \<not> xfs_bmap_is_written_extent ext irec \<or>
             br_startoff irec > max_dqid_off \<or>
             br_startoff irec + br_blockcount irec - 1 > max_dqid_off
          then (error, xchk_fblock_set_corrupt (br_startoff irec) sc)
          else xchk_quota_data_fork_loop ext max_dqid_off rest error sc)"

text \<open>\<^verbatim>\<open>xchk_quota_data_fork\<close>, lines 261--298; \<open>extents\<close> is the extent list of the data
  fork of the quota inode.\<close>

definition xchk_quota_data_fork ::
  "externs \<Rightarrow> xfs_bmbt_irec list \<Rightarrow> xfs_scrub \<Rightarrow> int \<times> xfs_scrub" where
  "xchk_quota_data_fork ext extents sc =
     (case xchk_metadata_inode_forks ext sc of (error, sc) \<Rightarrow>
        if error \<noteq> 0 \<or> XFS_SCRUB_OFLAG_CORRUPT \<in> sm_flags sc then (error, sc)
        else
          let max_dqid_off = ucast (XFS_DQ_ID_MAX div qi_dqperchunk (mp sc))
          in xchk_quota_data_fork_loop ext max_dqid_off extents error sc)"

text \<open>The loop of \<^verbatim>\<open>xchk_quota\<close>, lines 331--336.

  Modelled from the spec: the ordered record iterator \<^verbatim>\<open>xchk_dquot_iter\<close> (scrub/dqiterate.c
  is missing). Each call yields the next record, handing it over locked, until the
  records end or the iterator fails: \<open>dqs\<close> are the records it yields and \<open>iter_end\<close> is
  what it returns after the last one (0, or a negative error).\<close>

fun xchk_quota_iterate ::
  "externs \<Rightarrow> int \<Rightarrow> xfs_dquot list \<Rightarrow> xchk_quota_info \<Rightarrow> xfs_scrub \<Rightarrow>
     int \<times> xchk_quota_info \<times> xfs_scrub" where
  "xchk_quota_iterate ext iter_end [] sqi sc = (iter_end, sqi, sc)"
| "xchk_quota_iterate ext iter_end (dq # dqs) sqi sc =
     (case xchk_quota_item ext sqi (xfs_dqlock dq sc) dq of (error, sqi, sc) \<Rightarrow>
        let sc = xfs_qm_dqput dq sc
        in if error \<noteq> 0 then (error, sqi, sc)
           else xchk_quota_iterate ext iter_end dqs sqi sc)"

text \<open>\<^verbatim>\<open>xchk_quota\<close>, lines 301--345. The product of line 340 is a product of two 32-bit
  unsigned numbers.\<close>

definition xchk_quota ::
  "externs \<Rightarrow> xfs_bmbt_irec list \<Rightarrow> xfs_dquot list \<Rightarrow> int \<Rightarrow> xfs_scrub \<Rightarrow> int \<times> xfs_scrub" where
  "xchk_quota ext extents dqs iter_end sc =
     (case xchk_quota_data_fork ext extents sc of (error, sc) \<Rightarrow>
        if error \<noteq> 0 then (error, sc)
        else if XFS_SCRUB_OFLAG_CORRUPT \<in> sm_flags sc then (error, sc)
        else
          let sc = xchk_iunlock (ilock_flags sc) sc
          in case xchk_quota_iterate ext iter_end dqs \<lparr>last_id = 0\<rparr> sc of (error, sqi, sc) \<Rightarrow>
          let error = (if error = - ECANCELED then 0 else error)
          in case xchk_fblock_process_error ext sc
                    (ucast (last_id sqi * qi_dqperchunk (mp sc))) error of
            (ok, error, sc) \<Rightarrow> (error, sc))"


subsection \<open>What the record check emits, rule by rule\<close>

text \<open>The file offset of the block that holds a dquot, line 169.\<close>

definition item_offset :: "xfs_mount \<Rightarrow> xfs_dquot \<Rightarrow> u64" where
  "item_offset m dq = ucast (q_id dq div qi_dqperchunk m)"

text \<open>A resource is over its limits when its count exceeds a nonzero soft limit or a nonzero
  hard limit; its timer mismatches when it is set without the resource being over its
  limits, or not set although the resource is over its limits.\<close>

definition over_limit :: "xfs_dquot_res \<Rightarrow> bool" where
  "over_limit res \<longleftrightarrow>
     (softlimit res \<noteq> 0 \<and> count res > softlimit res) \<or>
     (hardlimit res \<noteq> 0 \<and> count res > hardlimit res)"

definition timer_mismatch :: "xfs_dquot_res \<Rightarrow> bool" where
  "timer_mismatch res \<longleftrightarrow>
     (timer res \<noteq> 0 \<and> \<not> over_limit res) \<or> (over_limit res \<and> timer res = 0)"

definition timer_findings :: "u64 \<Rightarrow> xfs_dquot_res \<Rightarrow> event list" where
  "timer_findings off res = (if timer_mismatch res then [Corrupt off] else [])"

text \<open>The three lock operations of lines 161--163.\<close>

definition lock_handoff :: "xfs_dquot \<Rightarrow> event list" where
  "lock_handoff dq = [DqUnlock (q_id dq), ILock {XFS_ILOCK_SHARED}, DqLock (q_id dq)]"

definition order_findings :: "u32 \<Rightarrow> u64 \<Rightarrow> xfs_dquot \<Rightarrow> event list" where
  "order_findings lid off dq = (if q_id dq \<noteq> 0 \<and> q_id dq \<le> lid then [Corrupt off] else [])"

text \<open>The error that the lookup of line 102 returns when the record gets that far, and the
  findings of the extent check.\<close>

definition lookup_error :: "externs \<Rightarrow> u64 \<Rightarrow> xfs_dquot \<Rightarrow> int" where
  "lookup_error ext off dq =
     (if xfs_verify_fileoff ext off \<and> q_fileoffset dq = off then fst (xfs_bmapi_read ext off) else 0)"

definition bmap_findings :: "externs \<Rightarrow> u64 \<Rightarrow> xfs_dquot \<Rightarrow> event list" where
  "bmap_findings ext off dq =
     (if \<not> xfs_verify_fileoff ext off then [Corrupt off]
      else if q_fileoffset dq \<noteq> off then [Corrupt off]
      else case xfs_bmapi_read ext off of (error, irec, nmaps) \<Rightarrow>
        if error \<noteq> 0 then []
        else if nmaps \<noteq> 1 then [Corrupt off]
        else (if \<not> xfs_verify_fsbno ext (br_startblock irec) then [Corrupt off] else []) @
             (if XFS_FSB_TO_DADDR ext (br_startblock irec) \<noteq> q_blkno dq then [Corrupt off] else []) @
             (if \<not> xfs_bmap_is_written_extent ext irec then [Corrupt off] else []))"

text \<open>Everything the record check emits under the shared inode lock, lines 161--176.\<close>

definition backing_events :: "externs \<Rightarrow> xfs_mount \<Rightarrow> u32 \<Rightarrow> xfs_dquot \<Rightarrow> event list" where
  "backing_events ext m lid dq =
     lock_handoff dq @ order_findings lid (item_offset m dq) dq @
     bmap_findings ext (item_offset m dq) dq @ [IUnlock {XFS_ILOCK_SHARED}]"

text \<open>Lines 188--201 for one resource: the warning for a hard limit above the capacity of
  the filesystem, then the finding for a soft limit above the hard limit.\<close>

definition limit_findings :: "u64 \<Rightarrow> u64 \<Rightarrow> xfs_dquot_res \<Rightarrow> event list" where
  "limit_findings off capacity res =
     (if hardlimit res > capacity then [Warning off] else []) @
     (if softlimit res > hardlimit res then [Corrupt off] else [])"

text \<open>Lines 211--227: usage above what the filesystem has.\<close>

definition usage_findings :: "xfs_mount \<Rightarrow> u64 \<Rightarrow> u64 \<Rightarrow> xfs_dquot \<Rightarrow> event list" where
  "usage_findings m fs_icount off dq =
     (if sb_dblocks m < count (q_blk dq)
      then [if has_reflink m then Warning off else Corrupt off] else []) @
     (if sb_rblocks m < count (q_rtb dq)
      then [if has_reflink m then Warning off else Corrupt off] else []) @
     (if count (q_ino dq) > fs_icount then [Corrupt off] else [])"

text \<open>Lines 237--247 for one resource: usage above a hard limit that is set.\<close>

definition overage_findings :: "u64 \<Rightarrow> xfs_dquot_res \<Rightarrow> event list" where
  "overage_findings off res =
     (if hardlimit res \<noteq> 0 \<and> count res > hardlimit res then [Warning off] else [])"

text \<open>Everything the record check emits after it has dropped the inode lock.\<close>

definition invariant_findings :: "xfs_mount \<Rightarrow> u64 \<Rightarrow> u64 \<Rightarrow> xfs_dquot \<Rightarrow> event list" where
  "invariant_findings m fs_icount off dq =
     limit_findings off (sb_dblocks m) (q_blk dq) @
     limit_findings off (maxicount m) (q_ino dq) @
     limit_findings off (sb_rblocks m) (q_rtb dq) @
     usage_findings m fs_icount off dq @
     (if q_id dq = 0 then []
      else overage_findings off (q_blk dq) @ overage_findings off (q_ino dq) @
           overage_findings off (q_rtb dq) @
           timer_findings off (q_blk dq) @ timer_findings off (q_ino dq) @
           timer_findings off (q_rtb dq))"

text \<open>A record reaches the invariant checks of lines 188--251 when the termination check
  of line 151 sees no signal and the lookup of line 102, if the record gets that far,
  returns no error.\<close>

definition reaches_checks :: "externs \<Rightarrow> xfs_scrub \<Rightarrow> xfs_dquot \<Rightarrow> bool" where
  "reaches_checks ext sc dq \<longleftrightarrow>
     \<not> fatal_signal_pending ext (polls sc) \<and>
     lookup_error ext (item_offset (mp sc) dq) dq = 0"

text \<open>The effect of a list of events on the scrub context.\<close>

fun flag_of :: "event \<Rightarrow> oflag set" where
  "flag_of (Corrupt off) = {XFS_SCRUB_OFLAG_CORRUPT}"
| "flag_of (Warning off) = {XFS_SCRUB_OFLAG_WARNING}"
| "flag_of e = {}"

fun ilock_step :: "event \<Rightarrow> ilock set \<Rightarrow> ilock set" where
  "ilock_step (ILock f) L = L \<union> f"
| "ilock_step (IUnlock f) L = L - f"
| "ilock_step e L = L"

definition emit :: "event list \<Rightarrow> xfs_scrub \<Rightarrow> xfs_scrub" where
  "emit es sc = sc\<lparr>sm_flags := sm_flags sc \<union> \<Union> (set (map flag_of es)),
                    ilock_flags := fold ilock_step es (ilock_flags sc),
                    trace := trace sc @ es\<rparr>"

subsection \<open>A small filesystem to run the scrubber on\<close>

text \<open>Thirty dquots per block; the block at file offset \<open>off\<close> of the quota file is mapped,
  written, to filesystem block \<open>off + 100\<close>; a filesystem block is eight sectors.\<close>

definition ex_mount :: xfs_mount where
  "ex_mount = \<lparr>sb_dblocks = 1000, sb_rblocks = 500, maxicount = 2000, has_reflink = False,
                qi_dqperchunk = 30\<rparr>"

definition ex_ext :: externs where
  "ex_ext = \<lparr>fatal_signal_pending = (\<lambda>n. False),
              terminate_errno = - 4,
              xfs_verify_fileoff = (\<lambda>off. off < 1000),
              xfs_verify_fsbno = (\<lambda>b. b < 1000),
              XFS_FSB_TO_DADDR = (\<lambda>b. 8 * b),
              xfs_bmap_is_written_extent =
                (\<lambda>irec. br_blockcount irec \<noteq> 0 \<and> br_state irec = XFS_EXT_NORM),
              xfs_bmapi_read =
                (\<lambda>off. (0, \<lparr>br_startoff = off, br_startblock = off + 100, br_blockcount = 1,
                              br_state = XFS_EXT_NORM\<rparr>, 1)),
              percpu_counter_sum = (\<lambda>n. 64),
              xchk_metadata_inode_forks = (\<lambda>sc. (0, sc)),
              xchk_file_op_error = (\<lambda>off e. (e, {}))\<rparr>"

definition ex_sc :: xfs_scrub where
  "ex_sc = \<lparr>mp = ex_mount, sm_flags = {}, ilock_flags = {XFS_ILOCK_EXCL}, trace = [],
             polls = 0, icount_reads = 0\<rparr>"

definition ex_res :: xfs_dquot_res where
  "ex_res = \<lparr>count = 10, hardlimit = 0, softlimit = 0, timer = 0\<rparr>"

text \<open>A dquot of the first block of the quota file that passes every check.\<close>

definition ex_dquot :: "u32 \<Rightarrow> xfs_dquot" where
  "ex_dquot i = \<lparr>q_id = i, q_blkno = 800, q_fileoffset = 0,
                  q_blk = ex_res, q_ino = ex_res, q_rtb = ex_res\<rparr>"

text \<open>A dquot whose block usage is over both limits while its timer is not running.\<close>

definition wit_timer_dquot :: xfs_dquot where
  "wit_timer_dquot = (ex_dquot 5)\<lparr>q_blk := \<lparr>count = 100, hardlimit = 80, softlimit = 50, timer = 0\<rparr>\<rparr>"


text \<open>The root dquot with more blocks than the filesystem has data blocks and more inodes
  than the inode counter says, and the example scrub context on a reflink filesystem.\<close>

definition wit_usage_dquot :: xfs_dquot where
  "wit_usage_dquot =
     (ex_dquot 0)\<lparr>q_blk := ex_res\<lparr>count := 1001\<rparr>, q_ino := ex_res\<lparr>count := 65\<rparr>\<rparr>"

definition ex_sc_reflink :: xfs_scrub where
  "ex_sc_reflink = ex_sc\<lparr>mp := ex_mount\<lparr>has_reflink := True\<rparr>\<rparr>"

text \<open>A dquot with a soft block limit and no hard block limit, and no usage.\<close>

definition cx_limit_dquot :: xfs_dquot where
  "cx_limit_dquot = (ex_dquot 7)\<lparr>q_blk := \<lparr>count = 0, hardlimit = 0, softlimit = 5, timer = 0\<rparr>\<rparr>"


text \<open>A quota file whose first block is mapped, unwritten, to filesystem block 7, and a
  dquot of that block that believes it lives at file offset 9.\<close>

definition cx_bmap_ext :: externs where
  "cx_bmap_ext = ex_ext\<lparr>xfs_bmapi_read :=
     (\<lambda>off. (0, \<lparr>br_startoff = off, br_startblock = 7, br_blockcount = 1,
                   br_state = XFS_EXT_UNWRITTEN\<rparr>, 1))\<rparr>"

definition cx_bmap_dquot :: xfs_dquot where
  "cx_bmap_dquot = (ex_dquot 5)\<lparr>q_fileoffset := 9\<rparr>"

text \<open>A mount for which no block number is a valid filesystem block number.\<close>

definition wit_fsbno_ext :: externs where
  "wit_fsbno_ext = ex_ext\<lparr>xfs_verify_fsbno := (\<lambda>b. False)\<rparr>"


subsection \<open>Lock order\<close>

text \<open>Replaying a trace: the dquot locks that are held after an event (the iterator hands
  a dquot over locked, which the trace shows as \<open>DqLock\<close>; \<^verbatim>\<open>xfs_qm_dqput\<close> gives it back),
  and whether every acquisition of the inode lock happens while no dquot lock is held.\<close>

fun lock_step :: "event \<Rightarrow> u32 list \<Rightarrow> u32 list" where
  "lock_step (DqLock i) held = i # held"
| "lock_step (DqUnlock i) held = remove1 i held"
| "lock_step (DqPut i) held = remove1 i held"
| "lock_step e held = held"

fun acquires_ilock :: "event \<Rightarrow> bool" where
  "acquires_ilock (ILock f) = True"
| "acquires_ilock e = False"

fun lock_order_ok :: "u32 list \<Rightarrow> event list \<Rightarrow> bool" where
  "lock_order_ok held [] = True"
| "lock_order_ok held (e # es) =
     ((if acquires_ilock e then held = [] else True) \<and> lock_order_ok (lock_step e held) es)"

fun is_finding :: "event \<Rightarrow> bool" where
  "is_finding (Corrupt off) = True"
| "is_finding (Warning off) = True"
| "is_finding e = False"

text \<open>What the record check adds to the trace: nothing when the termination check stops
  it, and the invariant findings only when the lookup returned no error.\<close>

definition item_emitted :: "externs \<Rightarrow> xchk_quota_info \<Rightarrow> xfs_scrub \<Rightarrow> xfs_dquot \<Rightarrow> event list" where
  "item_emitted ext sqi sc dq =
     (if fatal_signal_pending ext (polls sc) then []
      else backing_events ext (mp sc) (last_id sqi) dq @
           (if lookup_error ext (item_offset (mp sc) dq) dq = 0
            then invariant_findings (mp sc) (percpu_counter_sum ext (icount_reads sc))
                   (item_offset (mp sc) dq) dq
            else []))"



subsection \<open>The extents of the quota file\<close>

text \<open>The highest file offset that can hold a dquot, line 278, and what lines 288--290 ask
  of an extent: it is written, and neither its start offset nor the offset of its last
  block, computed in 64 bits as in line 290, lies above that offset.\<close>

definition max_dqid_off :: "xfs_mount \<Rightarrow> u64" where
  "max_dqid_off m = ucast (XFS_DQ_ID_MAX div qi_dqperchunk m)"

definition extent_compliant :: "externs \<Rightarrow> u64 \<Rightarrow> xfs_bmbt_irec \<Rightarrow> bool" where
  "extent_compliant ext max_off irec \<longleftrightarrow>
     xfs_bmap_is_written_extent ext irec \<and>
     br_startoff irec \<le> max_off \<and>
     br_startoff irec + br_blockcount irec - 1 \<le> max_off"

text \<open>Three extents: a written one at offset 0, an unwritten one at offset 1, and a written
  one far above the highest offset that can hold a dquot.\<close>

definition ex_written :: xfs_bmbt_irec where
  "ex_written = \<lparr>br_startoff = 0, br_startblock = 100, br_blockcount = 1, br_state = XFS_EXT_NORM\<rparr>"

definition ex_unwritten :: xfs_bmbt_irec where
  "ex_unwritten =
     \<lparr>br_startoff = 1, br_startblock = 101, br_blockcount = 1, br_state = XFS_EXT_UNWRITTEN\<rparr>"

definition ex_beyond :: xfs_bmbt_irec where
  "ex_beyond =
     \<lparr>br_startoff = 4294967296, br_startblock = 102, br_blockcount = 1, br_state = XFS_EXT_NORM\<rparr>"


text \<open>An inode counter that reads 64 first and 10 from then on, and a dquot with 50
  inodes.\<close>

definition cx_icount_ext :: externs where
  "cx_icount_ext = ex_ext\<lparr>percpu_counter_sum := (\<lambda>n. if n = 0 then 64 else 10)\<rparr>"

definition cx_icount_dquot :: "u32 \<Rightarrow> xfs_dquot" where
  "cx_icount_dquot i = (ex_dquot i)\<lparr>q_ino := ex_res\<lparr>count := 50\<rparr>\<rparr>"

text \<open>A dquot with two defects: a soft block limit above its hard block limit, and a
  realtime timer that runs without the realtime usage being over a limit.\<close>

definition wit_stop_dquot :: xfs_dquot where
  "wit_stop_dquot = cx_limit_dquot\<lparr>q_rtb := ex_res\<lparr>timer := 1\<rparr>\<rparr>"

text \<open>A quota file whose first block cannot be looked up (the lookup fails with \<open>-5\<close>) while
  its other blocks are mapped as in the example; a clean dquot of the third block, which
  holds the ids 60 to 89; dquot 5 of the first block with a soft block limit above its
  hard block limit; and a clean dquot of the fourth block.\<close>

definition cx_lookup_ext :: externs where
  "cx_lookup_ext = ex_ext\<lparr>xfs_bmapi_read :=
     (\<lambda>off. if off = 0
        then (- 5, \<lparr>br_startoff = 0, br_startblock = 0, br_blockcount = 0,
                     br_state = XFS_EXT_NORM\<rparr>, 0)
        else (0, \<lparr>br_startoff = off, br_startblock = off + 100, br_blockcount = 1,
                   br_state = XFS_EXT_NORM\<rparr>, 1))\<rparr>"

definition cx_lookup_first :: xfs_dquot where
  "cx_lookup_first = (ex_dquot 70)\<lparr>q_blkno := 816, q_fileoffset := 2\<rparr>"

definition cx_lookup_dquot :: xfs_dquot where
  "cx_lookup_dquot = cx_limit_dquot\<lparr>q_id := 5\<rparr>"

definition cx_lookup_next :: xfs_dquot where
  "cx_lookup_next = (ex_dquot 100)\<lparr>q_blkno := 824, q_fileoffset := 3\<rparr>"

text \<open>The same quota file under an error handler that turns the lookup error into the
  corrupt flag and no error.\<close>

definition cx_lookup_ext_flag :: externs where
  "cx_lookup_ext_flag = cx_lookup_ext\<lparr>xchk_file_op_error :=
     (\<lambda>off e. (0, {XFS_SCRUB_OFLAG_CORRUPT}))\<rparr>"



section \<open>Properties\<close>

lemmas ex_defs = ex_mount_def ex_ext_def ex_sc_def ex_res_def ex_dquot_def

lemmas finding_defs = item_offset_def over_limit_def timer_mismatch_def timer_findings_def
  lock_handoff_def order_findings_def lookup_error_def bmap_findings_def backing_events_def
  limit_findings_def usage_findings_def overage_findings_def invariant_findings_def
  reaches_checks_def

subsection \<open>Events and their effect\<close>

lemma emit_Nil: "emit [] sc = sc"
  by (simp add: emit_def)

lemma emit_emit: "emit b (emit a sc) = emit (a @ b) sc"
  by (simp add: emit_def Un_assoc)

lemma emit_fields:
  "mp (emit es sc) = mp sc"
  "polls (emit es sc) = polls sc"
  "icount_reads (emit es sc) = icount_reads sc"
  by (simp_all add: emit_def)

lemma emit_trace: "trace (emit es sc) = trace sc @ es"
  by (simp add: emit_def)

lemma emit_sm_flags: "sm_flags (emit es sc) = sm_flags sc \<union> \<Union> (set (map flag_of es))"
  by (simp add: emit_def)

lemma emit_polls: "emit es (sc\<lparr>polls := n\<rparr>) = (emit es sc)\<lparr>polls := n\<rparr>"
  by (simp add: emit_def)

lemma emit_icount_reads: "emit es (sc\<lparr>icount_reads := n\<rparr>) = (emit es sc)\<lparr>icount_reads := n\<rparr>"
  by (simp add: emit_def)

lemma prims_emit:
  "xchk_fblock_set_corrupt off = emit [Corrupt off]"
  "xchk_fblock_set_warning off = emit [Warning off]"
  "xchk_ilock f = emit [ILock f]"
  "xchk_iunlock f = emit [IUnlock f]"
  "xfs_dqlock dq = emit [DqLock (q_id dq)]"
  "xfs_dqunlock dq = emit [DqUnlock (q_id dq)]"
  "xfs_qm_dqput dq = emit [DqPut (q_id dq)]"
  by (simp_all add: fun_eq_iff emit_def xchk_fblock_set_corrupt_def xchk_fblock_set_warning_def
      xchk_ilock_def xchk_iunlock_def xfs_dqlock_def xfs_dqunlock_def xfs_qm_dqput_def)

lemma c_if_emit: "c_if c (emit es) sc = emit (if c then es else []) sc"
  by (simp add: c_if_def emit_Nil)

lemma if_fst_tuple: "(if P then x else y, r) = (if P then (x, r) else (y, r))"
  by simp

subsection \<open>The record check as a list of events\<close>

lemma timer_emit: "xchk_quota_item_timer off res sc = emit (timer_findings off res) sc"
  by (auto simp add: xchk_quota_item_timer_def timer_findings_def timer_mismatch_def over_limit_def
      prims_emit c_if_emit emit_Nil)

lemma bmap_emit:
  "xchk_quota_item_bmap ext sc dq off = (lookup_error ext off dq, emit (bmap_findings ext off dq) sc)"
  by (simp add: xchk_quota_item_bmap_def bmap_findings_def lookup_error_def prims_emit c_if_emit
      emit_emit emit_Nil split: prod.splits)

lemma item_terminate:
  assumes "fatal_signal_pending ext (polls sc)"
  shows "xchk_quota_item ext sqi sc dq = (terminate_errno ext, sqi, sc\<lparr>polls := Suc (polls sc)\<rparr>)"
  using assms by (simp add: xchk_quota_item_def xchk_should_terminate_def)

lemma item_lookup_error:
  assumes "\<not> fatal_signal_pending ext (polls sc)"
    and "lookup_error ext (item_offset (mp sc) dq) dq \<noteq> 0"
  shows "xchk_quota_item ext sqi sc dq =
    (case xchk_file_op_error ext (item_offset (mp sc) dq)
            (lookup_error ext (item_offset (mp sc) dq) dq) of
       (error, flags) \<Rightarrow>
         (error, sqi\<lparr>last_id := q_id dq\<rparr>,
          (emit (backing_events ext (mp sc) (last_id sqi) dq) (sc\<lparr>polls := Suc (polls sc)\<rparr>))
            \<lparr>sm_flags := sm_flags
               (emit (backing_events ext (mp sc) (last_id sqi) dq) (sc\<lparr>polls := Suc (polls sc)\<rparr>))
               \<union> flags\<rparr>))"
  using assms
  by (simp add: xchk_quota_item_def xchk_should_terminate_def Let_def bmap_emit prims_emit
      c_if_emit emit_emit emit_fields xchk_fblock_process_error_def backing_events_def
      lock_handoff_def order_findings_def item_offset_def
      split del: if_split split: prod.splits cong: if_cong)

lemma item_checks:
  assumes "reaches_checks ext sc dq"
  shows "xchk_quota_item ext sqi sc dq =
    (if XFS_SCRUB_OFLAG_CORRUPT \<in> sm_flags
          (emit (backing_events ext (mp sc) (last_id sqi) dq @
                 invariant_findings (mp sc) (percpu_counter_sum ext (icount_reads sc))
                   (item_offset (mp sc) dq) dq)
             (sc\<lparr>polls := Suc (polls sc), icount_reads := Suc (icount_reads sc)\<rparr>))
     then - ECANCELED else 0,
     sqi\<lparr>last_id := q_id dq\<rparr>,
     emit (backing_events ext (mp sc) (last_id sqi) dq @
           invariant_findings (mp sc) (percpu_counter_sum ext (icount_reads sc))
             (item_offset (mp sc) dq) dq)
       (sc\<lparr>polls := Suc (polls sc), icount_reads := Suc (icount_reads sc)\<rparr>))"
  using assms unfolding reaches_checks_def
  by (cases "has_reflink (mp sc)"; cases "q_id dq = 0")
    (simp_all add: xchk_quota_item_def xchk_should_terminate_def Let_def bmap_emit prims_emit
      c_if_emit emit_emit emit_fields xchk_fblock_process_error_def backing_events_def
      lock_handoff_def order_findings_def item_offset_def timer_emit emit_polls emit_icount_reads
      invariant_findings_def limit_findings_def usage_findings_def overage_findings_def
      if_fst_tuple split del: if_split cong: if_cong)

lemma item_checks_trace:
  assumes "reaches_checks ext sc dq"
  shows "trace (snd (snd (xchk_quota_item ext sqi sc dq))) =
    trace sc @ backing_events ext (mp sc) (last_id sqi) dq @
    invariant_findings (mp sc) (percpu_counter_sum ext (icount_reads sc))
      (item_offset (mp sc) dq) dq"
  by (simp add: item_checks [OF assms] emit_trace)

lemma item_checks_flags:
  assumes "reaches_checks ext sc dq"
  shows "sm_flags (snd (snd (xchk_quota_item ext sqi sc dq))) =
    sm_flags sc \<union> \<Union> (set (map flag_of (backing_events ext (mp sc) (last_id sqi) dq @
      invariant_findings (mp sc) (percpu_counter_sum ext (icount_reads sc))
        (item_offset (mp sc) dq) dq)))"
  by (simp add: item_checks [OF assms] emit_sm_flags emit_polls emit_icount_reads)

lemma item_checks_error:
  assumes "reaches_checks ext sc dq"
  shows "fst (xchk_quota_item ext sqi sc dq) =
    (if XFS_SCRUB_OFLAG_CORRUPT \<in> sm_flags (snd (snd (xchk_quota_item ext sqi sc dq)))
     then - ECANCELED else 0)"
  by (simp add: item_checks [OF assms])

subsection \<open>Grace timers\<close>

text \<open>Claim C1. The timer check of one resource reports corruption exactly when the timer
  mismatches the overage condition: the timer is set although the count exceeds neither
  a nonzero soft limit nor a nonzero hard limit, or the count exceeds one of them and
  the timer is not set. A record with a nonzero id that reaches the invariant checks gets
  this check for its block, inode and realtime block resources, as the last three
  findings of the record; the record with id 0 gets none of them. A mismatch in a record
  with a nonzero id sets the corrupt flag and makes the record check return
  \<open>-ECANCELED\<close>.\<close>

theorem timer_consistency_rule:
  "xchk_quota_item_timer off res sc =
     (if timer_mismatch res then xchk_fblock_set_corrupt off sc else sc) \<and>
   (reaches_checks ext sc dq \<longrightarrow>
     trace (snd (snd (xchk_quota_item ext sqi sc dq))) =
       trace sc @ backing_events ext (mp sc) (last_id sqi) dq @
       limit_findings (item_offset (mp sc) dq) (sb_dblocks (mp sc)) (q_blk dq) @
       limit_findings (item_offset (mp sc) dq) (maxicount (mp sc)) (q_ino dq) @
       limit_findings (item_offset (mp sc) dq) (sb_rblocks (mp sc)) (q_rtb dq) @
       usage_findings (mp sc) (percpu_counter_sum ext (icount_reads sc)) (item_offset (mp sc) dq) dq @
       (if q_id dq = 0 then []
        else overage_findings (item_offset (mp sc) dq) (q_blk dq) @
             overage_findings (item_offset (mp sc) dq) (q_ino dq) @
             overage_findings (item_offset (mp sc) dq) (q_rtb dq) @
             (if timer_mismatch (q_blk dq) then [Corrupt (item_offset (mp sc) dq)] else []) @
             (if timer_mismatch (q_ino dq) then [Corrupt (item_offset (mp sc) dq)] else []) @
             (if timer_mismatch (q_rtb dq) then [Corrupt (item_offset (mp sc) dq)] else []))) \<and>
   (reaches_checks ext sc dq \<and> q_id dq \<noteq> 0 \<and>
    (timer_mismatch (q_blk dq) \<or> timer_mismatch (q_ino dq) \<or> timer_mismatch (q_rtb dq)) \<longrightarrow>
     XFS_SCRUB_OFLAG_CORRUPT \<in> sm_flags (snd (snd (xchk_quota_item ext sqi sc dq))) \<and>
     fst (xchk_quota_item ext sqi sc dq) = - ECANCELED)"
proof (intro conjI impI)
  show "xchk_quota_item_timer off res sc =
     (if timer_mismatch res then xchk_fblock_set_corrupt off sc else sc)"
    by (simp add: timer_emit timer_findings_def prims_emit emit_Nil)
next
  assume "reaches_checks ext sc dq"
  then show "trace (snd (snd (xchk_quota_item ext sqi sc dq))) =
       trace sc @ backing_events ext (mp sc) (last_id sqi) dq @
       limit_findings (item_offset (mp sc) dq) (sb_dblocks (mp sc)) (q_blk dq) @
       limit_findings (item_offset (mp sc) dq) (maxicount (mp sc)) (q_ino dq) @
       limit_findings (item_offset (mp sc) dq) (sb_rblocks (mp sc)) (q_rtb dq) @
       usage_findings (mp sc) (percpu_counter_sum ext (icount_reads sc)) (item_offset (mp sc) dq) dq @
       (if q_id dq = 0 then []
        else overage_findings (item_offset (mp sc) dq) (q_blk dq) @
             overage_findings (item_offset (mp sc) dq) (q_ino dq) @
             overage_findings (item_offset (mp sc) dq) (q_rtb dq) @
             (if timer_mismatch (q_blk dq) then [Corrupt (item_offset (mp sc) dq)] else []) @
             (if timer_mismatch (q_ino dq) then [Corrupt (item_offset (mp sc) dq)] else []) @
             (if timer_mismatch (q_rtb dq) then [Corrupt (item_offset (mp sc) dq)] else []))"
    by (simp add: item_checks_trace invariant_findings_def timer_findings_def split del: if_split cong: if_cong)
next
  assume a: "reaches_checks ext sc dq \<and> q_id dq \<noteq> 0 \<and>
    (timer_mismatch (q_blk dq) \<or> timer_mismatch (q_ino dq) \<or> timer_mismatch (q_rtb dq))"
  then have r: "reaches_checks ext sc dq" by simp
  from a show c: "XFS_SCRUB_OFLAG_CORRUPT \<in> sm_flags (snd (snd (xchk_quota_item ext sqi sc dq)))"
    by (auto simp add: item_checks_flags [OF r] invariant_findings_def timer_findings_def)
  show "fst (xchk_quota_item ext sqi sc dq) = - ECANCELED"
    using c by (simp add: item_checks_error [OF r])
qed

text \<open>On the example filesystem, dquot 5 has 100 blocks against a soft limit of 50 and a hard
  limit of 80 and no timer: the record check warns about the usage above the hard limit and
  reports the timer.\<close>

theorem timer_consistency_rule_witness:
  "reaches_checks ex_ext ex_sc wit_timer_dquot \<and> q_id wit_timer_dquot \<noteq> 0 \<and>
   timer_mismatch (q_blk wit_timer_dquot) \<and>
   trace (snd (snd (xchk_quota_item ex_ext \<lparr>last_id = 0\<rparr> ex_sc wit_timer_dquot))) =
     [DqUnlock 5, ILock {XFS_ILOCK_SHARED}, DqLock 5, IUnlock {XFS_ILOCK_SHARED},
      Warning 0, Corrupt 0] \<and>
   fst (xchk_quota_item ex_ext \<lparr>last_id = 0\<rparr> ex_sc wit_timer_dquot) = - ECANCELED"
proof -
  have h: "reaches_checks ex_ext ex_sc wit_timer_dquot \<and> q_id wit_timer_dquot \<noteq> 0 \<and>
      timer_mismatch (q_blk wit_timer_dquot)"
    by (simp add: wit_timer_dquot_def ex_defs finding_defs)
  from h timer_consistency_rule [of 0 ex_res ex_sc ex_ext wit_timer_dquot "\<lparr>last_id = 0\<rparr>"]
  have "trace (snd (snd (xchk_quota_item ex_ext \<lparr>last_id = 0\<rparr> ex_sc wit_timer_dquot))) =
       trace ex_sc @ backing_events ex_ext (mp ex_sc) 0 wit_timer_dquot @
       limit_findings (item_offset (mp ex_sc) wit_timer_dquot) (sb_dblocks (mp ex_sc)) (q_blk wit_timer_dquot) @
       limit_findings (item_offset (mp ex_sc) wit_timer_dquot) (maxicount (mp ex_sc)) (q_ino wit_timer_dquot) @
       limit_findings (item_offset (mp ex_sc) wit_timer_dquot) (sb_rblocks (mp ex_sc)) (q_rtb wit_timer_dquot) @
       usage_findings (mp ex_sc) (percpu_counter_sum ex_ext (icount_reads ex_sc)) (item_offset (mp ex_sc) wit_timer_dquot) wit_timer_dquot @
       (if q_id wit_timer_dquot = 0 then []
        else overage_findings (item_offset (mp ex_sc) wit_timer_dquot) (q_blk wit_timer_dquot) @
             overage_findings (item_offset (mp ex_sc) wit_timer_dquot) (q_ino wit_timer_dquot) @
             overage_findings (item_offset (mp ex_sc) wit_timer_dquot) (q_rtb wit_timer_dquot) @
             (if timer_mismatch (q_blk wit_timer_dquot) then [Corrupt (item_offset (mp ex_sc) wit_timer_dquot)] else []) @
             (if timer_mismatch (q_ino wit_timer_dquot) then [Corrupt (item_offset (mp ex_sc) wit_timer_dquot)] else []) @
             (if timer_mismatch (q_rtb wit_timer_dquot) then [Corrupt (item_offset (mp ex_sc) wit_timer_dquot)] else []))"
    and "fst (xchk_quota_item ex_ext \<lparr>last_id = 0\<rparr> ex_sc wit_timer_dquot) = - ECANCELED"
    by simp_all
  then show ?thesis
    using h by (simp add: wit_timer_dquot_def ex_defs finding_defs)
qed



subsection \<open>Usage above the capacity of the filesystem\<close>

text \<open>Claim C2. For every record that reaches the invariant checks, the root dquot
  included: a block count above \<open>sb_dblocks\<close> and a realtime block count above
  \<open>sb_rblocks\<close> each yield a warning on a reflink filesystem and a corruption finding
  otherwise, and an inode count above the inode counter yields a corruption finding
  whether or not the filesystem has reflink. The findings come after the limit checks
  and before the checks that the root dquot skips.\<close>

theorem physical_overcommit_rule:
  assumes "reaches_checks ext sc dq"
  shows "trace (snd (snd (xchk_quota_item ext sqi sc dq))) =
       trace sc @ backing_events ext (mp sc) (last_id sqi) dq @
       limit_findings (item_offset (mp sc) dq) (sb_dblocks (mp sc)) (q_blk dq) @
       limit_findings (item_offset (mp sc) dq) (maxicount (mp sc)) (q_ino dq) @
       limit_findings (item_offset (mp sc) dq) (sb_rblocks (mp sc)) (q_rtb dq) @
       (if sb_dblocks (mp sc) < count (q_blk dq)
        then [if has_reflink (mp sc) then Warning (item_offset (mp sc) dq)
              else Corrupt (item_offset (mp sc) dq)]
        else []) @
       (if sb_rblocks (mp sc) < count (q_rtb dq)
        then [if has_reflink (mp sc) then Warning (item_offset (mp sc) dq)
              else Corrupt (item_offset (mp sc) dq)]
        else []) @
       (if count (q_ino dq) > percpu_counter_sum ext (icount_reads sc)
        then [Corrupt (item_offset (mp sc) dq)] else []) @
       (if q_id dq = 0 then []
        else overage_findings (item_offset (mp sc) dq) (q_blk dq) @
             overage_findings (item_offset (mp sc) dq) (q_ino dq) @
             overage_findings (item_offset (mp sc) dq) (q_rtb dq) @
             timer_findings (item_offset (mp sc) dq) (q_blk dq) @
             timer_findings (item_offset (mp sc) dq) (q_ino dq) @
             timer_findings (item_offset (mp sc) dq) (q_rtb dq)) \<and>
     ((sb_dblocks (mp sc) < count (q_blk dq) \<or> sb_rblocks (mp sc) < count (q_rtb dq)) \<and>
      has_reflink (mp sc) \<longrightarrow>
        XFS_SCRUB_OFLAG_WARNING \<in> sm_flags (snd (snd (xchk_quota_item ext sqi sc dq)))) \<and>
     ((sb_dblocks (mp sc) < count (q_blk dq) \<or> sb_rblocks (mp sc) < count (q_rtb dq)) \<and>
      \<not> has_reflink (mp sc) \<longrightarrow>
        XFS_SCRUB_OFLAG_CORRUPT \<in> sm_flags (snd (snd (xchk_quota_item ext sqi sc dq))) \<and>
        fst (xchk_quota_item ext sqi sc dq) = - ECANCELED) \<and>
     (count (q_ino dq) > percpu_counter_sum ext (icount_reads sc) \<longrightarrow>
        XFS_SCRUB_OFLAG_CORRUPT \<in> sm_flags (snd (snd (xchk_quota_item ext sqi sc dq))) \<and>
        fst (xchk_quota_item ext sqi sc dq) = - ECANCELED)"
    (is "?T \<and> ?W \<and> ?C1 \<and> ?C2")
proof -
  note r = assms
  have t: ?T
    by (simp add: item_checks_trace [OF r] invariant_findings_def usage_findings_def
        split del: if_split cong: if_cong)
  have w: ?W
    by (auto simp add: item_checks_flags [OF r] invariant_findings_def usage_findings_def)
  have c1: ?C1
    by (auto simp add: item_checks_error [OF r] item_checks_flags [OF r] invariant_findings_def
        usage_findings_def)
  have c2: ?C2
    by (auto simp add: item_checks_error [OF r] item_checks_flags [OF r] invariant_findings_def
        usage_findings_def)
  from t w c1 c2 show ?thesis by blast
qed

text \<open>The root dquot with 1001 blocks on a filesystem of 1000 and 65 inodes against a counter
  of 64: two corruption findings without reflink, a warning and a corruption finding with
  reflink.\<close>

theorem physical_overcommit_rule_witness:
  "reaches_checks ex_ext ex_sc wit_usage_dquot \<and>
   reaches_checks ex_ext ex_sc_reflink wit_usage_dquot \<and>
   trace (snd (snd (xchk_quota_item ex_ext \<lparr>last_id = 0\<rparr> ex_sc wit_usage_dquot))) =
     [DqUnlock 0, ILock {XFS_ILOCK_SHARED}, DqLock 0, IUnlock {XFS_ILOCK_SHARED},
      Corrupt 0, Corrupt 0] \<and>
   trace (snd (snd (xchk_quota_item ex_ext \<lparr>last_id = 0\<rparr> ex_sc_reflink wit_usage_dquot))) =
     [DqUnlock 0, ILock {XFS_ILOCK_SHARED}, DqLock 0, IUnlock {XFS_ILOCK_SHARED},
      Warning 0, Corrupt 0] \<and>
   XFS_SCRUB_OFLAG_WARNING \<in>
     sm_flags (snd (snd (xchk_quota_item ex_ext \<lparr>last_id = 0\<rparr> ex_sc_reflink wit_usage_dquot)))"
proof -
  have h1: "reaches_checks ex_ext ex_sc wit_usage_dquot"
    and h2: "reaches_checks ex_ext ex_sc_reflink wit_usage_dquot"
    by (simp_all add: wit_usage_dquot_def ex_sc_reflink_def ex_defs finding_defs)
  from physical_overcommit_rule [OF h1, of "\<lparr>last_id = 0\<rparr>"]
    physical_overcommit_rule [OF h2, of "\<lparr>last_id = 0\<rparr>"] h1 h2
  show ?thesis
    by (simp add: wit_usage_dquot_def ex_sc_reflink_def ex_defs finding_defs)
qed


subsection \<open>Soft limit above hard limit\<close>

text \<open>Claim C3 says that the limit check emits nothing when the hard limit is 0. It does:
  the dquot below has a soft block limit of 5, no hard block limit and no usage, so its
  timers are consistent, and the record check reports corruption for it, which it does
  not for the same dquot without the soft limit.\<close>

theorem limit_ordering_zero_hardlimit_counterexample:
  "hardlimit (q_blk cx_limit_dquot) = 0 \<and>
   timer_findings 0 (q_blk cx_limit_dquot) = [] \<and>
   trace (snd (snd (xchk_quota_item ex_ext \<lparr>last_id = 0\<rparr> ex_sc cx_limit_dquot))) =
     [DqUnlock 7, ILock {XFS_ILOCK_SHARED}, DqLock 7, IUnlock {XFS_ILOCK_SHARED}, Corrupt 0] \<and>
   trace (snd (snd (xchk_quota_item ex_ext \<lparr>last_id = 0\<rparr> ex_sc (ex_dquot 7)))) =
     [DqUnlock 7, ILock {XFS_ILOCK_SHARED}, DqLock 7, IUnlock {XFS_ILOCK_SHARED}] \<and>
   fst (xchk_quota_item ex_ext \<lparr>last_id = 0\<rparr> ex_sc cx_limit_dquot) = - ECANCELED"
proof -
  have h1: "reaches_checks ex_ext ex_sc cx_limit_dquot"
    and h2: "reaches_checks ex_ext ex_sc (ex_dquot 7)"
    by (simp_all add: cx_limit_dquot_def ex_defs finding_defs)
  from item_checks_trace [OF h1, of "\<lparr>last_id = 0\<rparr>"]
    item_checks_trace [OF h2, of "\<lparr>last_id = 0\<rparr>"]
    item_checks_error [OF h1, of "\<lparr>last_id = 0\<rparr>"]
    item_checks_flags [OF h1, of "\<lparr>last_id = 0\<rparr>"]
  show ?thesis
    by (simp add: cx_limit_dquot_def ex_defs finding_defs)
qed


text \<open>Claim C3 as amended. For every record that reaches the invariant checks, whatever
  its id, and for each of its three resources, the limit check emits a corruption
  finding exactly when the soft limit is greater than the hard limit; a hard limit of 0
  is compared like any other value. A finding sets the corrupt flag and makes the
  record check return \<open>-ECANCELED\<close>.\<close>

theorem limit_ordering_rule:
  assumes "reaches_checks ext sc dq"
  shows "trace (snd (snd (xchk_quota_item ext sqi sc dq))) =
       trace sc @ backing_events ext (mp sc) (last_id sqi) dq @
       (if hardlimit (q_blk dq) > sb_dblocks (mp sc) then [Warning (item_offset (mp sc) dq)] else []) @
       (if softlimit (q_blk dq) > hardlimit (q_blk dq) then [Corrupt (item_offset (mp sc) dq)] else []) @
       (if hardlimit (q_ino dq) > maxicount (mp sc) then [Warning (item_offset (mp sc) dq)] else []) @
       (if softlimit (q_ino dq) > hardlimit (q_ino dq) then [Corrupt (item_offset (mp sc) dq)] else []) @
       (if hardlimit (q_rtb dq) > sb_rblocks (mp sc) then [Warning (item_offset (mp sc) dq)] else []) @
       (if softlimit (q_rtb dq) > hardlimit (q_rtb dq) then [Corrupt (item_offset (mp sc) dq)] else []) @
       usage_findings (mp sc) (percpu_counter_sum ext (icount_reads sc)) (item_offset (mp sc) dq) dq @
       (if q_id dq = 0 then []
        else overage_findings (item_offset (mp sc) dq) (q_blk dq) @
             overage_findings (item_offset (mp sc) dq) (q_ino dq) @
             overage_findings (item_offset (mp sc) dq) (q_rtb dq) @
             timer_findings (item_offset (mp sc) dq) (q_blk dq) @
             timer_findings (item_offset (mp sc) dq) (q_ino dq) @
             timer_findings (item_offset (mp sc) dq) (q_rtb dq)) \<and>
     (softlimit (q_blk dq) > hardlimit (q_blk dq) \<or> softlimit (q_ino dq) > hardlimit (q_ino dq) \<or>
      softlimit (q_rtb dq) > hardlimit (q_rtb dq) \<longrightarrow>
        XFS_SCRUB_OFLAG_CORRUPT \<in> sm_flags (snd (snd (xchk_quota_item ext sqi sc dq))) \<and>
        fst (xchk_quota_item ext sqi sc dq) = - ECANCELED)"
    (is "?T \<and> ?C")
proof -
  note r = assms
  have t: ?T
    by (simp add: item_checks_trace [OF r] invariant_findings_def limit_findings_def
        split del: if_split cong: if_cong)
  have c: ?C
    by (auto simp add: item_checks_error [OF r] item_checks_flags [OF r] invariant_findings_def
        limit_findings_def)
  from t c show ?thesis by blast
qed

text \<open>The dquot with a soft block limit of 5 above its hard block limit of 0 is reported.\<close>

theorem limit_ordering_rule_witness:
  "reaches_checks ex_ext ex_sc cx_limit_dquot \<and>
   softlimit (q_blk cx_limit_dquot) > hardlimit (q_blk cx_limit_dquot) \<and>
   trace (snd (snd (xchk_quota_item ex_ext \<lparr>last_id = 0\<rparr> ex_sc cx_limit_dquot))) =
     [DqUnlock 7, ILock {XFS_ILOCK_SHARED}, DqLock 7, IUnlock {XFS_ILOCK_SHARED}, Corrupt 0] \<and>
   fst (xchk_quota_item ex_ext \<lparr>last_id = 0\<rparr> ex_sc cx_limit_dquot) = - ECANCELED"
proof -
  have h: "reaches_checks ex_ext ex_sc cx_limit_dquot"
    by (simp add: cx_limit_dquot_def ex_defs finding_defs)
  from limit_ordering_rule [OF h, of "\<lparr>last_id = 0\<rparr>"] h
  show ?thesis
    by (simp add: cx_limit_dquot_def ex_defs finding_defs)
qed



subsection \<open>The extent that backs a dquot\<close>

lemma bmap_findings_corrupt: "set (bmap_findings ext off dq) \<subseteq> {Corrupt off}"
  by (auto simp add: bmap_findings_def split: prod.splits if_splits)

lemma flags_of_corrupt:
  assumes "set es \<subseteq> {Corrupt off}"
  shows "\<Union> (set (map flag_of es)) = (if es = [] then {} else {XFS_SCRUB_OFLAG_CORRUPT})"
proof (cases es)
  case Nil
  then show ?thesis by simp
next
  case (Cons e es')
  from assms have "\<forall>x\<in>set es. flag_of x = {XFS_SCRUB_OFLAG_CORRUPT}"
    by auto
  then have "\<Union> (flag_of ` set es) = {XFS_SCRUB_OFLAG_CORRUPT}"
    using Cons by auto
  with Cons show ?thesis by simp
qed

text \<open>Claim C6 says that the extent check evaluates all its conditions, so that each
  violated one adds a finding. It does not: the dquot below disagrees with the computed
  offset, its block is mapped to another place than the dquot claims, and the mapping
  is unwritten; the check stops at the first of the three and reports one finding. With
  the offset corrected, the same dquot gets the two other findings.\<close>

theorem bmap_short_circuit_counterexample:
  "q_fileoffset cx_bmap_dquot \<noteq> 0 \<and>
   XFS_FSB_TO_DADDR cx_bmap_ext (br_startblock (fst (snd (xfs_bmapi_read cx_bmap_ext 0)))) \<noteq>
     q_blkno cx_bmap_dquot \<and>
   \<not> xfs_bmap_is_written_extent cx_bmap_ext (fst (snd (xfs_bmapi_read cx_bmap_ext 0))) \<and>
   xchk_quota_item_bmap cx_bmap_ext ex_sc cx_bmap_dquot 0 =
     (0, ex_sc\<lparr>sm_flags := {XFS_SCRUB_OFLAG_CORRUPT}, trace := [Corrupt 0]\<rparr>) \<and>
   xchk_quota_item_bmap cx_bmap_ext ex_sc (cx_bmap_dquot\<lparr>q_fileoffset := 0\<rparr>) 0 =
     (0, ex_sc\<lparr>sm_flags := {XFS_SCRUB_OFLAG_CORRUPT}, trace := [Corrupt 0, Corrupt 0]\<rparr>)"
  by (simp add: xchk_quota_item_bmap_def xchk_fblock_set_corrupt_def c_if_def cx_bmap_ext_def
      cx_bmap_dquot_def ex_defs)

text \<open>Claim C6 as amended. The extent check evaluates its conditions in order. Each of
  the first three ends the check with one finding when it is violated: the offset is not
  a valid file offset, the dquot's own offset differs from it, the lookup returns other
  than one mapping. A lookup error ends the check without a finding and is returned.
  Only a dquot that passes all of these gets the remaining checks of the mapping (its
  start block is a valid block number, converts to the block number of the dquot, and
  the extent is written), which are evaluated independently, each adding its own
  finding.\<close>

theorem bmap_checks_in_order:
  "fst (xchk_quota_item_bmap ext sc dq off) =
     (if xfs_verify_fileoff ext off \<and> q_fileoffset dq = off
      then fst (xfs_bmapi_read ext off) else 0) \<and>
   trace (snd (xchk_quota_item_bmap ext sc dq off)) =
     trace sc @
     (if \<not> xfs_verify_fileoff ext off then [Corrupt off]
      else if q_fileoffset dq \<noteq> off then [Corrupt off]
      else if fst (xfs_bmapi_read ext off) \<noteq> 0 then []
      else if snd (snd (xfs_bmapi_read ext off)) \<noteq> 1 then [Corrupt off]
      else (if \<not> xfs_verify_fsbno ext (br_startblock (fst (snd (xfs_bmapi_read ext off))))
            then [Corrupt off] else []) @
           (if XFS_FSB_TO_DADDR ext (br_startblock (fst (snd (xfs_bmapi_read ext off)))) \<noteq>
               q_blkno dq
            then [Corrupt off] else []) @
           (if \<not> xfs_bmap_is_written_extent ext (fst (snd (xfs_bmapi_read ext off)))
            then [Corrupt off] else [])) \<and>
   sm_flags (snd (xchk_quota_item_bmap ext sc dq off)) =
     (if trace (snd (xchk_quota_item_bmap ext sc dq off)) = trace sc then sm_flags sc
      else insert XFS_SCRUB_OFLAG_CORRUPT (sm_flags sc))"
    (is "?E \<and> ?T \<and> ?F")
proof -
  have e: ?E
    by (simp add: bmap_emit lookup_error_def)
  have t: ?T
    by (simp add: bmap_emit emit_trace bmap_findings_def split: prod.splits)
  have f: ?F
    by (simp add: bmap_emit emit_trace emit_sm_flags
        flags_of_corrupt [OF bmap_findings_corrupt] del: set_map)
  from e t f show ?thesis by blast
qed

text \<open>The dquot whose own offset is wrong gets one finding; with the offset corrected, it gets
  the findings for the block number and for the unwritten extent.\<close>

theorem bmap_checks_in_order_witness:
  "xchk_quota_item_bmap cx_bmap_ext ex_sc cx_bmap_dquot 0 =
     (0, ex_sc\<lparr>sm_flags := {XFS_SCRUB_OFLAG_CORRUPT}, trace := [Corrupt 0]\<rparr>) \<and>
   trace (snd (xchk_quota_item_bmap cx_bmap_ext ex_sc (cx_bmap_dquot\<lparr>q_fileoffset := 0\<rparr>) 0)) =
     [Corrupt 0, Corrupt 0]"
proof -
  have "xchk_quota_item_bmap cx_bmap_ext ex_sc cx_bmap_dquot 0 =
     (0, ex_sc\<lparr>sm_flags := {XFS_SCRUB_OFLAG_CORRUPT}, trace := [Corrupt 0]\<rparr>)"
    by (simp add: xchk_quota_item_bmap_def xchk_fblock_set_corrupt_def c_if_def cx_bmap_ext_def
      cx_bmap_dquot_def ex_defs)
  with bmap_checks_in_order [of cx_bmap_ext ex_sc "cx_bmap_dquot\<lparr>q_fileoffset := 0\<rparr>" 0]
  show ?thesis
    by (simp add: cx_bmap_ext_def cx_bmap_dquot_def ex_defs)
qed

text \<open>Claim C10. When the lookup resolves one mapping for a dquot whose offset is valid and
  agrees with the computed one, and the start block of the mapping is not a valid
  filesystem block number, the extent check reports corruption, whether or not the
  block converts to the block number of the dquot and whether or not the extent is
  written. The record check makes this check for every record that passes its
  termination check, and returns \<open>-ECANCELED\<close> for such a mapping.\<close>

theorem bmap_invalid_fsbno_corrupt:
  assumes "xfs_verify_fileoff ext off" and "q_fileoffset dq = off"
    and "xfs_bmapi_read ext off = (0, irec, 1)"
    and "\<not> xfs_verify_fsbno ext (br_startblock irec)"
  shows "fst (xchk_quota_item_bmap ext sc dq off) = 0 \<and>
    XFS_SCRUB_OFLAG_CORRUPT \<in> sm_flags (snd (xchk_quota_item_bmap ext sc dq off)) \<and>
    trace (snd (xchk_quota_item_bmap ext sc dq off)) =
      trace sc @ Corrupt off #
      (if XFS_FSB_TO_DADDR ext (br_startblock irec) \<noteq> q_blkno dq then [Corrupt off] else []) @
      (if \<not> xfs_bmap_is_written_extent ext irec then [Corrupt off] else []) \<and>
    (\<not> fatal_signal_pending ext (polls sc') \<and> off = item_offset (mp sc') dq \<longrightarrow>
       XFS_SCRUB_OFLAG_CORRUPT \<in> sm_flags (snd (snd (xchk_quota_item ext sqi sc' dq))) \<and>
       fst (xchk_quota_item ext sqi sc' dq) = - ECANCELED)"
    (is "?E \<and> ?F \<and> ?T \<and> ?I")
proof -
  have e: ?E and f: ?F and t: ?T
    using assms
    by (simp_all add: bmap_emit emit_trace emit_sm_flags lookup_error_def bmap_findings_def)
  have i: ?I
  proof
    assume a: "\<not> fatal_signal_pending ext (polls sc') \<and> off = item_offset (mp sc') dq"
    with assms have r: "reaches_checks ext sc' dq"
      by (simp add: reaches_checks_def lookup_error_def)
    from a assms
    have "XFS_SCRUB_OFLAG_CORRUPT \<in> sm_flags (snd (snd (xchk_quota_item ext sqi sc' dq)))"
      by (simp add: item_checks_flags [OF r] backing_events_def bmap_findings_def)
    then show "XFS_SCRUB_OFLAG_CORRUPT \<in> sm_flags (snd (snd (xchk_quota_item ext sqi sc' dq))) \<and>
       fst (xchk_quota_item ext sqi sc' dq) = - ECANCELED"
      by (simp add: item_checks_error [OF r])
  qed
  from e f t i show ?thesis by blast
qed

text \<open>On a mount that accepts no block number, dquot 5 is reported although its block converts
  to the block number it claims and the extent is written.\<close>

theorem bmap_invalid_fsbno_corrupt_witness:
  "xfs_bmapi_read wit_fsbno_ext 0 =
     (0, \<lparr>br_startoff = 0, br_startblock = 100, br_blockcount = 1, br_state = XFS_EXT_NORM\<rparr>, 1) \<and>
   XFS_FSB_TO_DADDR wit_fsbno_ext 100 = q_blkno (ex_dquot 5) \<and>
   trace (snd (xchk_quota_item_bmap wit_fsbno_ext ex_sc (ex_dquot 5) 0)) = [Corrupt 0] \<and>
   fst (xchk_quota_item wit_fsbno_ext \<lparr>last_id = 0\<rparr> ex_sc (ex_dquot 5)) = - ECANCELED"
proof -
  have h: "xfs_verify_fileoff wit_fsbno_ext 0" "q_fileoffset (ex_dquot 5) = 0"
    "xfs_bmapi_read wit_fsbno_ext 0 =
      (0, \<lparr>br_startoff = 0, br_startblock = 100, br_blockcount = 1, br_state = XFS_EXT_NORM\<rparr>, 1)"
    "\<not> xfs_verify_fsbno wit_fsbno_ext
        (br_startblock \<lparr>br_startoff = 0, br_startblock = 100, br_blockcount = 1,
           br_state = XFS_EXT_NORM\<rparr>)"
    by (simp_all add: wit_fsbno_ext_def ex_defs)
  from bmap_invalid_fsbno_corrupt [OF h, of ex_sc ex_sc "\<lparr>last_id = 0\<rparr>"] h(3)
  show ?thesis
    by (simp add: wit_fsbno_ext_def ex_defs item_offset_def)
qed


subsection \<open>Lock order\<close>

lemma item_trace:
  "trace (snd (snd (xchk_quota_item ext sqi sc dq))) = trace sc @ item_emitted ext sqi sc dq"
proof (cases "fatal_signal_pending ext (polls sc)")
  case True
  then show ?thesis by (simp add: item_terminate item_emitted_def)
next
  case False
  show ?thesis
  proof (cases "lookup_error ext (item_offset (mp sc) dq) dq = 0")
    case True
    with False have "reaches_checks ext sc dq" by (simp add: reaches_checks_def)
    then show ?thesis using False True by (simp add: item_checks_trace item_emitted_def)
  next
    case e: False
    show ?thesis using False e
      by (simp add: item_lookup_error item_emitted_def emit_trace split: prod.splits)
  qed
qed

lemma item_mp: "mp (snd (snd (xchk_quota_item ext sqi sc dq))) = mp sc"
proof (cases "fatal_signal_pending ext (polls sc)")
  case True
  then show ?thesis by (simp add: item_terminate)
next
  case False
  show ?thesis
  proof (cases "lookup_error ext (item_offset (mp sc) dq) dq = 0")
    case True
    with False have "reaches_checks ext sc dq" by (simp add: reaches_checks_def)
    then show ?thesis by (simp add: item_checks emit_fields)
  next
    case e: False
    show ?thesis using False e
      by (simp add: item_lookup_error emit_fields split: prod.splits)
  qed
qed

lemma lock_order_ok_append:
  "lock_order_ok held (a @ b) \<longleftrightarrow> lock_order_ok held a \<and> lock_order_ok (fold lock_step a held) b"
  by (induction a arbitrary: held) auto

lemma findings_lock_neutral:
  assumes "list_all is_finding fs"
  shows "lock_order_ok held fs \<and> fold lock_step fs held = held"
  using assms
proof (induction fs)
  case Nil
  then show ?case by simp
next
  case (Cons e fs)
  then show ?case by (cases e) simp_all
qed

lemma order_findings_are_findings: "list_all is_finding (order_findings lid off dq)"
  by (simp add: order_findings_def)

lemma bmap_findings_are_findings: "list_all is_finding (bmap_findings ext off dq)"
  by (simp add: bmap_findings_def split: prod.splits)

lemma invariant_findings_are_findings: "list_all is_finding (invariant_findings m n off dq)"
  by (simp add: invariant_findings_def limit_findings_def usage_findings_def
      overage_findings_def timer_findings_def)

lemma backing_events_locks:
  "lock_order_ok [i] (backing_events ext m lid dq) \<longleftrightarrow> i = q_id dq"
  "i = q_id dq \<Longrightarrow> fold lock_step (backing_events ext m lid dq) [i] = [i]"
  using findings_lock_neutral [OF order_findings_are_findings, of _ lid "item_offset m dq" dq]
    findings_lock_neutral [OF bmap_findings_are_findings, of _ ext "item_offset m dq" dq]
  by (simp_all add: backing_events_def lock_handoff_def lock_order_ok_append)

lemma item_emitted_locks:
  "lock_order_ok [q_id dq] (item_emitted ext sqi sc dq) \<and>
   fold lock_step (item_emitted ext sqi sc dq) [q_id dq] = [q_id dq]"
  using findings_lock_neutral [OF invariant_findings_are_findings]
  by (simp add: item_emitted_def lock_order_ok_append backing_events_locks)

lemma iterate_trace:
  "\<exists>es. trace (snd (snd (xchk_quota_iterate ext fin dqs sqi sc))) = trace sc @ es \<and>
     lock_order_ok [] es \<and> fold lock_step es [] = []"
proof (induction dqs arbitrary: sqi sc)
  case Nil
  then show ?case by simp
next
  case (Cons dq dqs)
  obtain error sqi' sc' where it: "xchk_quota_item ext sqi (xfs_dqlock dq sc) dq = (error, sqi', sc')"
    by (cases "xchk_quota_item ext sqi (xfs_dqlock dq sc) dq") auto
  let ?one = "DqLock (q_id dq) # item_emitted ext sqi (xfs_dqlock dq sc) dq @ [DqPut (q_id dq)]"
  have tr: "trace (xfs_qm_dqput dq sc') = trace sc @ ?one"
    using item_trace [of ext sqi "xfs_dqlock dq sc" dq] it
    by (simp add: xfs_qm_dqput_def xfs_dqlock_def)
  have ok: "lock_order_ok [] ?one \<and> fold lock_step ?one [] = []"
    using item_emitted_locks [of dq ext sqi "xfs_dqlock dq sc"]
    by (simp add: lock_order_ok_append)
  show ?case
  proof (cases "error = 0")
    case False
    with it tr ok show ?thesis by (simp add: Let_def del: fold_simps lock_order_ok.simps)
  next
    case True
    from Cons.IH [of sqi' "xfs_qm_dqput dq sc'"] obtain es where
      es: "trace (snd (snd (xchk_quota_iterate ext fin dqs sqi' (xfs_qm_dqput dq sc')))) =
             trace (xfs_qm_dqput dq sc') @ es"
        "lock_order_ok [] es" "fold lock_step es [] = []"
      by blast
    have "lock_order_ok [] (?one @ es) \<and> fold lock_step (?one @ es) [] = []"
      using ok es by (simp only: lock_order_ok_append fold_append o_apply)
    moreover have "trace (snd (snd (xchk_quota_iterate ext fin (dq # dqs) sqi sc))) =
        trace sc @ (?one @ es)"
      using it True es(1) tr by (simp add: Let_def)
    ultimately show ?thesis by blast
  qed
qed

text \<open>Claim C4. A record that passes its termination check makes the record check drop
  the dquot lock, take the inode lock shared and take the dquot lock again, in this
  order and before anything else; the findings of the order check and of the extent
  check follow, then the inode lock is released, and only then come the findings of the
  invariant checks. The record check, entered with the lock of its dquot held, never
  takes the inode lock while a dquot lock is held, and neither does the iteration over
  any records, each handed over locked by the iterator and given back with
  \<^verbatim>\<open>xfs_qm_dqput\<close>.\<close>

theorem lock_handoff_order:
  "(\<not> fatal_signal_pending ext (polls sc) \<longrightarrow>
      trace (snd (snd (xchk_quota_item ext sqi sc dq))) =
        trace sc @
        [DqUnlock (q_id dq), ILock {XFS_ILOCK_SHARED}, DqLock (q_id dq)] @
        (order_findings (last_id sqi) (item_offset (mp sc) dq) dq @
         bmap_findings ext (item_offset (mp sc) dq) dq) @
        [IUnlock {XFS_ILOCK_SHARED}] @
        (if lookup_error ext (item_offset (mp sc) dq) dq = 0
         then invariant_findings (mp sc) (percpu_counter_sum ext (icount_reads sc))
                (item_offset (mp sc) dq) dq
         else [])) \<and>
   list_all is_finding (order_findings (last_id sqi) (item_offset (mp sc) dq) dq @
     bmap_findings ext (item_offset (mp sc) dq) dq) \<and>
   list_all is_finding (invariant_findings (mp sc) (percpu_counter_sum ext (icount_reads sc))
     (item_offset (mp sc) dq) dq) \<and>
   take (length (trace sc)) (trace (snd (snd (xchk_quota_item ext sqi sc dq)))) = trace sc \<and>
   lock_order_ok [q_id dq]
     (drop (length (trace sc)) (trace (snd (snd (xchk_quota_item ext sqi sc dq))))) \<and>
   take (length (trace sc)) (trace (snd (snd (xchk_quota_iterate ext fin dqs sqi sc)))) = trace sc \<and>
   lock_order_ok []
     (drop (length (trace sc)) (trace (snd (snd (xchk_quota_iterate ext fin dqs sqi sc)))))"
proof -
  have a: "\<not> fatal_signal_pending ext (polls sc) \<longrightarrow>
      trace (snd (snd (xchk_quota_item ext sqi sc dq))) =
        trace sc @
        [DqUnlock (q_id dq), ILock {XFS_ILOCK_SHARED}, DqLock (q_id dq)] @
        (order_findings (last_id sqi) (item_offset (mp sc) dq) dq @
         bmap_findings ext (item_offset (mp sc) dq) dq) @
        [IUnlock {XFS_ILOCK_SHARED}] @
        (if lookup_error ext (item_offset (mp sc) dq) dq = 0
         then invariant_findings (mp sc) (percpu_counter_sum ext (icount_reads sc))
                (item_offset (mp sc) dq) dq
         else [])"
    by (simp add: item_trace item_emitted_def backing_events_def lock_handoff_def)
  have b: "list_all is_finding (order_findings (last_id sqi) (item_offset (mp sc) dq) dq @
     bmap_findings ext (item_offset (mp sc) dq) dq)"
    using order_findings_are_findings bmap_findings_are_findings by simp
  have c: "take (length (trace sc)) (trace (snd (snd (xchk_quota_item ext sqi sc dq)))) = trace sc \<and>
   lock_order_ok [q_id dq]
     (drop (length (trace sc)) (trace (snd (snd (xchk_quota_item ext sqi sc dq)))))"
    using item_emitted_locks [of dq ext sqi sc] by (simp add: item_trace)
  obtain es where "trace (snd (snd (xchk_quota_iterate ext fin dqs sqi sc))) = trace sc @ es"
    and "lock_order_ok [] es"
    using iterate_trace by blast
  then have d: "take (length (trace sc)) (trace (snd (snd (xchk_quota_iterate ext fin dqs sqi sc)))) = trace sc \<and>
   lock_order_ok []
     (drop (length (trace sc)) (trace (snd (snd (xchk_quota_iterate ext fin dqs sqi sc)))))"
    by simp
  from a b c d invariant_findings_are_findings show ?thesis by blast
qed

text \<open>The trace of the record check for dquot 5 of the example, which respects the lock order,
  next to a trace that takes the inode lock first and does not.\<close>

theorem lock_handoff_order_witness:
  "\<not> fatal_signal_pending ex_ext (polls ex_sc) \<and>
   trace (snd (snd (xchk_quota_item ex_ext \<lparr>last_id = 0\<rparr> ex_sc wit_timer_dquot))) =
     [DqUnlock 5, ILock {XFS_ILOCK_SHARED}, DqLock 5, IUnlock {XFS_ILOCK_SHARED},
      Warning 0, Corrupt 0] \<and>
   lock_order_ok [5] (trace (snd (snd (xchk_quota_item ex_ext \<lparr>last_id = 0\<rparr> ex_sc wit_timer_dquot)))) \<and>
   \<not> lock_order_ok [5] [ILock {XFS_ILOCK_SHARED}, DqUnlock 5, DqLock 5, IUnlock {XFS_ILOCK_SHARED}]"
proof -
  have h: "\<not> fatal_signal_pending ex_ext (polls ex_sc)"
    by (simp add: ex_defs)
  from lock_handoff_order [of ex_ext ex_sc "\<lparr>last_id = 0\<rparr>" wit_timer_dquot 0 "[]"] h
  have "trace (snd (snd (xchk_quota_item ex_ext \<lparr>last_id = 0\<rparr> ex_sc wit_timer_dquot))) =
        trace ex_sc @
        [DqUnlock (q_id wit_timer_dquot), ILock {XFS_ILOCK_SHARED}, DqLock (q_id wit_timer_dquot)] @
        (order_findings (last_id \<lparr>last_id = 0\<rparr>) (item_offset (mp ex_sc) wit_timer_dquot) wit_timer_dquot @
         bmap_findings ex_ext (item_offset (mp ex_sc) wit_timer_dquot) wit_timer_dquot) @
        [IUnlock {XFS_ILOCK_SHARED}] @
        (if lookup_error ex_ext (item_offset (mp ex_sc) wit_timer_dquot) wit_timer_dquot = 0
         then invariant_findings (mp ex_sc) (percpu_counter_sum ex_ext (icount_reads ex_sc))
                (item_offset (mp ex_sc) wit_timer_dquot) wit_timer_dquot
         else [])"
    by blast
  then have t: "trace (snd (snd (xchk_quota_item ex_ext \<lparr>last_id = 0\<rparr> ex_sc wit_timer_dquot))) =
     [DqUnlock 5, ILock {XFS_ILOCK_SHARED}, DqLock 5, IUnlock {XFS_ILOCK_SHARED},
      Warning 0, Corrupt 0]"
    by (simp add: wit_timer_dquot_def ex_defs finding_defs)
  show ?thesis
    using h by (simp add: t)
qed


subsection \<open>The order of the ids\<close>

lemmas run_defs = xchk_quota_def xchk_quota_data_fork_def xchk_quota_item_def Let_def
  xchk_should_terminate_def xchk_quota_item_bmap_def xchk_fblock_process_error_def c_if_def
  xchk_quota_item_timer_def xchk_iunlock_def xchk_ilock_def xfs_dqlock_def xfs_dqunlock_def
  xfs_qm_dqput_def xchk_fblock_set_corrupt_def xchk_fblock_set_warning_def ECANCELED_def
  XFS_DQ_ID_MAX_def

lemma iterate_append:
  "xchk_quota_iterate ext fin (xs @ ys) sqi sc =
     (case xchk_quota_iterate ext 0 xs sqi sc of
        (error, sqi', sc') \<Rightarrow>
          if error \<noteq> 0 then (error, sqi', sc') else xchk_quota_iterate ext fin ys sqi' sc')"
  by (induction xs arbitrary: sqi sc) (simp_all add: Let_def split: prod.splits)

lemma item_last_id:
  assumes "\<not> fatal_signal_pending ext (polls sc)"
  shows "fst (snd (xchk_quota_item ext sqi sc dq)) = \<lparr>last_id = q_id dq\<rparr>"
proof (cases "lookup_error ext (item_offset (mp sc) dq) dq = 0")
  case True
  with assms have "reaches_checks ext sc dq" by (simp add: reaches_checks_def)
  then show ?thesis by (simp add: item_checks)
next
  case False
  with assms show ?thesis by (simp add: item_lookup_error split: prod.splits)
qed

lemma item_backing_flags:
  assumes "\<not> fatal_signal_pending ext (polls sc)"
  shows "sm_flags sc \<union> \<Union> (set (map flag_of (backing_events ext (mp sc) (last_id sqi) dq)))
    \<subseteq> sm_flags (snd (snd (xchk_quota_item ext sqi sc dq)))"
proof (cases "lookup_error ext (item_offset (mp sc) dq) dq = 0")
  case True
  with assms have "reaches_checks ext sc dq" by (simp add: reaches_checks_def)
  then show ?thesis by (auto simp add: item_checks_flags)
next
  case False
  with assms show ?thesis
    by (auto simp add: item_lookup_error emit_sm_flags emit_polls split: prod.splits)
qed

lemma iterate_last_id:
  assumes "\<forall>n. \<not> fatal_signal_pending ext n"
    and "xchk_quota_iterate ext 0 (pre @ [p]) sqi sc = (0, sqi1, sc1)"
  shows "sqi1 = \<lparr>last_id = q_id p\<rparr>"
  using assms(2)
proof (induction pre arbitrary: sqi sc)
  case Nil
  then show ?case
    using item_last_id [of ext "xfs_dqlock p sc" sqi p] assms(1)
    by (auto simp add: Let_def split: prod.splits if_splits)
next
  case (Cons x pre)
  then show ?case
    by (auto simp add: Let_def split: prod.splits if_splits)
qed

text \<open>Claim C5 says that a nonzero id is compared with the previous nonzero id of the run.
  It is compared with the id of the record before it, and the root dquot counts: after
  the ids 5 and 0, the id 3 passes the order check, and the scrub of these three records
  reports nothing.\<close>

theorem id_ordering_counterexample:
  "q_id (ex_dquot 3) \<noteq> 0 \<and> q_id (ex_dquot 3) \<le> q_id (ex_dquot 5) \<and>
   xchk_quota ex_ext [] [ex_dquot 5, ex_dquot 0, ex_dquot 3] 0 ex_sc =
     (0, ex_sc\<lparr>sm_flags := {}, ilock_flags := {},
            trace := [IUnlock {XFS_ILOCK_EXCL},
              DqLock 5, DqUnlock 5, ILock {XFS_ILOCK_SHARED}, DqLock 5,
              IUnlock {XFS_ILOCK_SHARED}, DqPut 5,
              DqLock 0, DqUnlock 0, ILock {XFS_ILOCK_SHARED}, DqLock 0,
              IUnlock {XFS_ILOCK_SHARED}, DqPut 0,
              DqLock 3, DqUnlock 3, ILock {XFS_ILOCK_SHARED}, DqLock 3,
              IUnlock {XFS_ILOCK_SHARED}, DqPut 3],
            polls := 3, icount_reads := 3\<rparr>)"
  by (simp add: run_defs ex_defs)

text \<open>Claim C5 as amended. A record that passes its termination check and has a nonzero id
  that is less than or equal to \<open>last_id\<close> gets a corruption finding at its offset
  \<open>id / qi_dqperchunk\<close>, right after the lock hand-off; no other record gets one from the
  order check, so the root dquot never does. The check leaves the id of the record in
  \<open>last_id\<close>, the root dquot's too: in an iteration that no signal interrupts, the
  record that follows a record \<open>p\<close> is checked against the id of \<open>p\<close>.\<close>

theorem id_ordering_rule:
  "(\<not> fatal_signal_pending ext (polls sc) \<longrightarrow>
      trace (snd (snd (xchk_quota_item ext sqi sc dq))) =
        trace sc @ lock_handoff dq @
        (if q_id dq \<noteq> 0 \<and> q_id dq \<le> last_id sqi
         then [Corrupt (ucast (q_id dq div qi_dqperchunk (mp sc)))] else []) @
        bmap_findings ext (item_offset (mp sc) dq) dq @ [IUnlock {XFS_ILOCK_SHARED}] @
        (if lookup_error ext (item_offset (mp sc) dq) dq = 0
         then invariant_findings (mp sc) (percpu_counter_sum ext (icount_reads sc))
                (item_offset (mp sc) dq) dq
         else []) \<and>
      fst (snd (xchk_quota_item ext sqi sc dq)) = \<lparr>last_id = q_id dq\<rparr> \<and>
      (q_id dq \<noteq> 0 \<and> q_id dq \<le> last_id sqi \<longrightarrow>
         XFS_SCRUB_OFLAG_CORRUPT \<in> sm_flags (snd (snd (xchk_quota_item ext sqi sc dq))))) \<and>
   ((\<forall>n. \<not> fatal_signal_pending ext n) \<and>
    xchk_quota_iterate ext 0 (pre @ [p]) sqi sc = (0, sqi1, sc1) \<longrightarrow>
      sqi1 = \<lparr>last_id = q_id p\<rparr> \<and>
      xchk_quota_iterate ext fin (pre @ p # d # post) sqi sc =
        (case xchk_quota_item ext \<lparr>last_id = q_id p\<rparr> (xfs_dqlock d sc1) d of
           (error, sqi2, sc2) \<Rightarrow>
             if error \<noteq> 0 then (error, sqi2, xfs_qm_dqput d sc2)
             else xchk_quota_iterate ext fin post sqi2 (xfs_qm_dqput d sc2)))"
    (is "?A \<and> ?B")
proof -
  have a: ?A
  proof (intro impI conjI)
    assume n: "\<not> fatal_signal_pending ext (polls sc)"
    then show "trace (snd (snd (xchk_quota_item ext sqi sc dq))) =
        trace sc @ lock_handoff dq @
        (if q_id dq \<noteq> 0 \<and> q_id dq \<le> last_id sqi
         then [Corrupt (ucast (q_id dq div qi_dqperchunk (mp sc)))] else []) @
        bmap_findings ext (item_offset (mp sc) dq) dq @ [IUnlock {XFS_ILOCK_SHARED}] @
        (if lookup_error ext (item_offset (mp sc) dq) dq = 0
         then invariant_findings (mp sc) (percpu_counter_sum ext (icount_reads sc))
                (item_offset (mp sc) dq) dq
         else [])"
      by (simp add: item_trace item_emitted_def backing_events_def order_findings_def
          item_offset_def)
    from n show "fst (snd (xchk_quota_item ext sqi sc dq)) = \<lparr>last_id = q_id dq\<rparr>"
      by (rule item_last_id)
    assume "q_id dq \<noteq> 0 \<and> q_id dq \<le> last_id sqi"
    then show "XFS_SCRUB_OFLAG_CORRUPT \<in> sm_flags (snd (snd (xchk_quota_item ext sqi sc dq)))"
      using item_backing_flags [OF n, of sqi dq]
      by (auto simp add: backing_events_def order_findings_def)
  qed
  have b: ?B
  proof (intro impI)
    assume h: "(\<forall>n. \<not> fatal_signal_pending ext n) \<and>
      xchk_quota_iterate ext 0 (pre @ [p]) sqi sc = (0, sqi1, sc1)"
    then have l: "sqi1 = \<lparr>last_id = q_id p\<rparr>"
      using iterate_last_id by blast
    have "xchk_quota_iterate ext fin ((pre @ [p]) @ d # post) sqi sc =
        xchk_quota_iterate ext fin (d # post) sqi1 sc1"
      using h by (simp only: iterate_append [of ext fin "pre @ [p]"]) simp
    with l show "sqi1 = \<lparr>last_id = q_id p\<rparr> \<and>
      xchk_quota_iterate ext fin (pre @ p # d # post) sqi sc =
        (case xchk_quota_item ext \<lparr>last_id = q_id p\<rparr> (xfs_dqlock d sc1) d of
           (error, sqi2, sc2) \<Rightarrow>
             if error \<noteq> 0 then (error, sqi2, xfs_qm_dqput d sc2)
             else xchk_quota_iterate ext fin post sqi2 (xfs_qm_dqput d sc2))"
      by (simp add: Let_def)
  qed
  from a b show ?thesis by blast
qed

text \<open>Visited with \<open>last_id = 3\<close>, dquot 3 is reported and the root dquot resets \<open>last_id\<close>
  to 0; so does the root dquot visited after dquot 5 in an iteration.\<close>

theorem id_ordering_rule_witness:
  "\<not> fatal_signal_pending ex_ext (polls ex_sc) \<and>
   trace (snd (snd (xchk_quota_item ex_ext \<lparr>last_id = 3\<rparr> ex_sc (ex_dquot 3)))) =
     [DqUnlock 3, ILock {XFS_ILOCK_SHARED}, DqLock 3, Corrupt 0, IUnlock {XFS_ILOCK_SHARED}] \<and>
   XFS_SCRUB_OFLAG_CORRUPT \<in>
     sm_flags (snd (snd (xchk_quota_item ex_ext \<lparr>last_id = 3\<rparr> ex_sc (ex_dquot 3)))) \<and>
   fst (snd (xchk_quota_item ex_ext \<lparr>last_id = 3\<rparr> ex_sc (ex_dquot 0))) = \<lparr>last_id = 0\<rparr> \<and>
   (\<forall>n. \<not> fatal_signal_pending ex_ext n) \<and>
   fst (xchk_quota_iterate ex_ext 0 [ex_dquot 5, ex_dquot 0] \<lparr>last_id = 0\<rparr> ex_sc) = 0 \<and>
   fst (snd (xchk_quota_iterate ex_ext 0 [ex_dquot 5, ex_dquot 0] \<lparr>last_id = 0\<rparr> ex_sc)) =
     \<lparr>last_id = 0\<rparr>"
proof -
  have h: "\<not> fatal_signal_pending ex_ext (polls ex_sc)"
    and g: "\<forall>n. \<not> fatal_signal_pending ex_ext n"
    by (simp_all add: ex_defs)
  have i: "fst (xchk_quota_iterate ex_ext 0 [ex_dquot 5, ex_dquot 0] \<lparr>last_id = 0\<rparr> ex_sc) = 0"
    by (simp add: run_defs ex_defs)
  then have j: "xchk_quota_iterate ex_ext 0 ([ex_dquot 5] @ [ex_dquot 0]) \<lparr>last_id = 0\<rparr> ex_sc =
    (0, fst (snd (xchk_quota_iterate ex_ext 0 [ex_dquot 5, ex_dquot 0] \<lparr>last_id = 0\<rparr> ex_sc)),
     snd (snd (xchk_quota_iterate ex_ext 0 [ex_dquot 5, ex_dquot 0] \<lparr>last_id = 0\<rparr> ex_sc)))"
    by (simp add: prod_eq_iff)
  from id_ordering_rule [where ext = ex_ext and sc = ex_sc and sqi = "\<lparr>last_id = 3\<rparr>"
      and dq = "ex_dquot 3" and pre = "[]" and p = "ex_dquot 0"] h
  have "trace (snd (snd (xchk_quota_item ex_ext \<lparr>last_id = 3\<rparr> ex_sc (ex_dquot 3)))) =
        trace ex_sc @ lock_handoff (ex_dquot 3) @
        (if q_id (ex_dquot 3) \<noteq> 0 \<and> q_id (ex_dquot 3) \<le> last_id \<lparr>last_id = 3\<rparr>
         then [Corrupt (ucast (q_id (ex_dquot 3) div qi_dqperchunk (mp ex_sc)))] else []) @
        bmap_findings ex_ext (item_offset (mp ex_sc) (ex_dquot 3)) (ex_dquot 3) @ [IUnlock {XFS_ILOCK_SHARED}] @
        (if lookup_error ex_ext (item_offset (mp ex_sc) (ex_dquot 3)) (ex_dquot 3) = 0
         then invariant_findings (mp ex_sc) (percpu_counter_sum ex_ext (icount_reads ex_sc))
                (item_offset (mp ex_sc) (ex_dquot 3)) (ex_dquot 3)
         else [])"
    and "q_id (ex_dquot 3) \<noteq> 0 \<and> q_id (ex_dquot 3) \<le> last_id \<lparr>last_id = 3\<rparr> \<longrightarrow>
      XFS_SCRUB_OFLAG_CORRUPT \<in>
        sm_flags (snd (snd (xchk_quota_item ex_ext \<lparr>last_id = 3\<rparr> ex_sc (ex_dquot 3))))"
    by blast+
  moreover
  from id_ordering_rule [where ext = ex_ext and sc = ex_sc and sqi = "\<lparr>last_id = 3\<rparr>"
      and dq = "ex_dquot 0" and pre = "[]" and p = "ex_dquot 0"] h
  have "fst (snd (xchk_quota_item ex_ext \<lparr>last_id = 3\<rparr> ex_sc (ex_dquot 0))) =
      \<lparr>last_id = q_id (ex_dquot 0)\<rparr>"
    by blast
  moreover
  from id_ordering_rule [where ext = ex_ext and sc = ex_sc and sqi = "\<lparr>last_id = 0\<rparr>"
      and pre = "[ex_dquot 5]" and p = "ex_dquot 0"] g j
  have "fst (snd (xchk_quota_iterate ex_ext 0 [ex_dquot 5, ex_dquot 0] \<lparr>last_id = 0\<rparr> ex_sc)) =
      \<lparr>last_id = q_id (ex_dquot 0)\<rparr>"
    by blast
  ultimately show ?thesis
    using h g i by (simp add: ex_defs finding_defs)
qed


subsection \<open>The extents of the quota file\<close>

lemma data_fork_loop_compliant:
  assumes "\<forall>n. \<not> fatal_signal_pending ext n"
    and "list_all (extent_compliant ext max_off) exts"
  shows "xchk_quota_data_fork_loop ext max_off exts error sc =
    (error, sc\<lparr>polls := polls sc + length exts\<rparr>)"
  using assms(2)
proof (induction exts arbitrary: sc)
  case Nil
  then show ?case by simp
next
  case (Cons irec exts)
  then show ?case
    using assms(1)
    by (auto simp add: xchk_should_terminate_def extent_compliant_def dest: leD)
qed

lemma data_fork_loop_first_bad:
  assumes "\<forall>n. \<not> fatal_signal_pending ext n"
    and "list_all (extent_compliant ext max_off) good"
    and "\<not> extent_compliant ext max_off bad"
  shows "xchk_quota_data_fork_loop ext max_off (good @ bad # rest) error sc =
    (error, xchk_fblock_set_corrupt (br_startoff bad) (sc\<lparr>polls := polls sc + length good + 1\<rparr>))"
  using assms(2)
proof (induction good arbitrary: sc)
  case Nil
  then show ?case
    using assms(1,3)
    by (auto simp add: xchk_should_terminate_def extent_compliant_def not_le)
next
  case (Cons irec good)
  then show ?case
    using assms(1)
    by (auto simp add: xchk_should_terminate_def extent_compliant_def dest: leD)
qed

lemma last_block_no_wrap:
  fixes a b :: u64
  assumes "b \<noteq> 0" and "unat a + unat b \<le> 2 ^ 64"
  shows "unat (a + b - 1) = unat a + unat b - 1"
proof -
  have b1: "unat (b - 1) = unat b - 1"
    using assms(1) by (simp add: unat_minus_one)
  have "0 < unat b"
    using assms(1) by (simp add: unat_gt_0)
  with assms(2) b1 have "unat a + unat (b - 1) < 2 ^ LENGTH(64)"
    by simp
  then have "unat (a + (b - 1)) = unat a + unat (b - 1)"
    by (simp only: unat_add_lem [THEN iffD1])
  with b1 \<open>0 < unat b\<close> show ?thesis
    by (simp add: add_diff_eq)
qed

text \<open>Claim C7. When the generic fork scrubber reports neither an error nor corruption and
  no signal is pending, the range check walks the extents in order: at the first extent
  that is not written, or starts above the highest offset that can hold a dquot, or
  whose last block lies above it, it reports corruption at the start offset of that
  extent and stops, so that the extents after it play no part; \<^verbatim>\<open>xchk_quota\<close> then
  returns with that state, without unlocking the inode and without visiting a record.
  On extents that all comply, an empty list included, it reports nothing. The 64-bit
  sum of line 290 is the offset of the last block of every extent that is not empty and
  ends within the 64-bit offset range.\<close>

theorem data_fork_range_check:
  assumes "\<forall>n. \<not> fatal_signal_pending ext n"
    and "xchk_metadata_inode_forks ext sc = (0, sc1)"
    and "XFS_SCRUB_OFLAG_CORRUPT \<notin> sm_flags sc1"
  shows
   "(list_all (extent_compliant ext (max_dqid_off (mp sc1))) good \<and>
     \<not> extent_compliant ext (max_dqid_off (mp sc1)) bad \<longrightarrow>
       xchk_quota_data_fork ext (good @ bad # rest) sc =
         (0, xchk_fblock_set_corrupt (br_startoff bad)
               (sc1\<lparr>polls := polls sc1 + length good + 1\<rparr>)) \<and>
       xchk_quota ext (good @ bad # rest) dqs fin sc =
         (0, xchk_fblock_set_corrupt (br_startoff bad)
               (sc1\<lparr>polls := polls sc1 + length good + 1\<rparr>))) \<and>
    (list_all (extent_compliant ext (max_dqid_off (mp sc1))) exts \<longrightarrow>
       xchk_quota_data_fork ext exts sc = (0, sc1\<lparr>polls := polls sc1 + length exts\<rparr>)) \<and>
    (br_blockcount irec \<noteq> 0 \<and> unat (br_startoff irec) + unat (br_blockcount irec) \<le> 2 ^ 64 \<longrightarrow>
       (extent_compliant ext max_off irec \<longleftrightarrow>
          xfs_bmap_is_written_extent ext irec \<and>
          unat (br_startoff irec) + unat (br_blockcount irec) - 1 \<le> unat max_off))"
    (is "?A \<and> ?B \<and> ?C")
proof -
  have a: ?A
  proof
    assume h: "list_all (extent_compliant ext (max_dqid_off (mp sc1))) good \<and>
      \<not> extent_compliant ext (max_dqid_off (mp sc1)) bad"
    have d: "xchk_quota_data_fork ext (good @ bad # rest) sc =
         (0, xchk_fblock_set_corrupt (br_startoff bad)
               (sc1\<lparr>polls := polls sc1 + length good + 1\<rparr>))"
      using assms h data_fork_loop_first_bad [of ext "max_dqid_off (mp sc1)" good bad rest 0 sc1]
      by (simp add: xchk_quota_data_fork_def max_dqid_off_def)
    then show "xchk_quota_data_fork ext (good @ bad # rest) sc =
         (0, xchk_fblock_set_corrupt (br_startoff bad)
               (sc1\<lparr>polls := polls sc1 + length good + 1\<rparr>)) \<and>
       xchk_quota ext (good @ bad # rest) dqs fin sc =
         (0, xchk_fblock_set_corrupt (br_startoff bad)
               (sc1\<lparr>polls := polls sc1 + length good + 1\<rparr>))"
      by (simp add: xchk_quota_def xchk_fblock_set_corrupt_def)
  qed
  have b: ?B
    using assms data_fork_loop_compliant [of ext "max_dqid_off (mp sc1)" exts 0 sc1]
    by (simp add: xchk_quota_data_fork_def max_dqid_off_def)
  have c: ?C
  proof
    assume h: "br_blockcount irec \<noteq> 0 \<and>
      unat (br_startoff irec) + unat (br_blockcount irec) \<le> 2 ^ 64"
    then have l: "unat (br_startoff irec + br_blockcount irec - 1) =
      unat (br_startoff irec) + unat (br_blockcount irec) - 1"
      using last_block_no_wrap by blast
    from h have "0 < unat (br_blockcount irec)"
      by (simp add: unat_gt_0)
    with l show "extent_compliant ext max_off irec \<longleftrightarrow>
          xfs_bmap_is_written_extent ext irec \<and>
          unat (br_startoff irec) + unat (br_blockcount irec) - 1 \<le> unat max_off"
      by (auto simp add: extent_compliant_def word_le_nat_alt)
  qed
  from a b c show ?thesis by blast
qed

text \<open>The scan stops at the unwritten extent at offset 1 and the scrub visits no record; an
  extent above the highest dquot offset is reported at its start offset; a written
  extent and the empty list are not reported.\<close>

theorem data_fork_range_check_witness:
  "(\<forall>n. \<not> fatal_signal_pending ex_ext n) \<and>
   extent_compliant ex_ext (max_dqid_off (mp ex_sc)) ex_written \<and>
   \<not> extent_compliant ex_ext (max_dqid_off (mp ex_sc)) ex_unwritten \<and>
   \<not> extent_compliant ex_ext (max_dqid_off (mp ex_sc)) ex_beyond \<and>
   xchk_quota ex_ext [ex_written, ex_unwritten, ex_beyond] [ex_dquot 5] 0 ex_sc =
     (0, ex_sc\<lparr>sm_flags := {XFS_SCRUB_OFLAG_CORRUPT}, trace := [Corrupt 1], polls := 2\<rparr>) \<and>
   xchk_quota_data_fork ex_ext [ex_written, ex_beyond] ex_sc =
     (0, ex_sc\<lparr>sm_flags := {XFS_SCRUB_OFLAG_CORRUPT}, trace := [Corrupt 4294967296], polls := 2\<rparr>) \<and>
   xchk_quota_data_fork ex_ext [ex_written] ex_sc = (0, ex_sc\<lparr>polls := 1\<rparr>) \<and>
   xchk_quota_data_fork ex_ext [] ex_sc = (0, ex_sc)"
proof -
  have h: "\<forall>n. \<not> fatal_signal_pending ex_ext n"
    "xchk_metadata_inode_forks ex_ext ex_sc = (0, ex_sc)"
    "XFS_SCRUB_OFLAG_CORRUPT \<notin> sm_flags ex_sc"
    by (simp_all add: ex_defs)
  have m: "max_dqid_off (mp ex_sc) = 143165576"
    by (simp add: max_dqid_off_def XFS_DQ_ID_MAX_def ex_defs)
  have e: "extent_compliant ex_ext (max_dqid_off (mp ex_sc)) ex_written"
    "\<not> extent_compliant ex_ext (max_dqid_off (mp ex_sc)) ex_unwritten"
    "\<not> extent_compliant ex_ext (max_dqid_off (mp ex_sc)) ex_beyond"
    by (simp_all add: m extent_compliant_def ex_written_def ex_unwritten_def ex_beyond_def ex_ext_def)
  from data_fork_range_check [OF h, where good = "[ex_written]" and bad = ex_unwritten
      and rest = "[ex_beyond]" and dqs = "[ex_dquot 5]" and fin = 0 and exts = "[ex_written]"] e
  have "xchk_quota ex_ext ([ex_written] @ ex_unwritten # [ex_beyond]) [ex_dquot 5] 0 ex_sc =
         (0, xchk_fblock_set_corrupt (br_startoff ex_unwritten)
               (ex_sc\<lparr>polls := polls ex_sc + length [ex_written] + 1\<rparr>))"
    and "xchk_quota_data_fork ex_ext [ex_written] ex_sc =
      (0, ex_sc\<lparr>polls := polls ex_sc + length [ex_written]\<rparr>)"
    by simp_all
  moreover
  from data_fork_range_check [OF h, where good = "[ex_written]" and bad = ex_beyond
      and rest = "[]" and exts = "[]"] e
  have "xchk_quota_data_fork ex_ext ([ex_written] @ ex_beyond # []) ex_sc =
         (0, xchk_fblock_set_corrupt (br_startoff ex_beyond)
               (ex_sc\<lparr>polls := polls ex_sc + length [ex_written] + 1\<rparr>))"
    and "xchk_quota_data_fork ex_ext [] ex_sc = (0, ex_sc\<lparr>polls := polls ex_sc + length ([] :: xfs_bmbt_irec list)\<rparr>)"
    by simp_all
  ultimately show ?thesis
    using h(1) e
    by (simp add: xchk_fblock_set_corrupt_def ex_sc_def ex_unwritten_def ex_beyond_def)
qed


subsection \<open>Corruption ends the iteration\<close>

lemma reaches_checks_dqlock:
  "reaches_checks ext (xfs_dqlock dq sc) d \<longleftrightarrow> reaches_checks ext sc d"
  by (simp add: reaches_checks_def xfs_dqlock_def)

text \<open>Claim C8 says that a corruption finding for a record never keeps the remaining checks of
  the record from running, that the records after it are skipped and that the scrub
  returns success. The lookup of line 102 comes between the order check and the
  invariant checks: dquot 5, visited after dquot 70, gets the finding of the order
  check, then its lookup fails, and the record check returns at line 178. Its soft
  limit above its hard limit is never reported and the scrub returns the error \<open>-5\<close>.
  Under a handler that turns the error into the corrupt flag, the record check returns
  0 instead, and the dquot after it is still visited.\<close>

theorem corruption_then_lookup_error_counterexample:
  "softlimit (q_blk cx_lookup_dquot) > hardlimit (q_blk cx_lookup_dquot) \<and>
   xchk_quota cx_lookup_ext [] [cx_lookup_first, cx_lookup_dquot, cx_lookup_next] 0 ex_sc =
     (- 5, ex_sc\<lparr>sm_flags := {XFS_SCRUB_OFLAG_CORRUPT}, ilock_flags := {},
              trace := [IUnlock {XFS_ILOCK_EXCL},
                DqLock 70, DqUnlock 70, ILock {XFS_ILOCK_SHARED}, DqLock 70,
                IUnlock {XFS_ILOCK_SHARED}, DqPut 70,
                DqLock 5, DqUnlock 5, ILock {XFS_ILOCK_SHARED}, DqLock 5, Corrupt 0,
                IUnlock {XFS_ILOCK_SHARED}, DqPut 5],
              polls := 2, icount_reads := 1\<rparr>) \<and>
   xchk_quota cx_lookup_ext_flag [] [cx_lookup_first, cx_lookup_dquot, cx_lookup_next] 0 ex_sc =
     (0, ex_sc\<lparr>sm_flags := {XFS_SCRUB_OFLAG_CORRUPT}, ilock_flags := {},
            trace := [IUnlock {XFS_ILOCK_EXCL},
              DqLock 70, DqUnlock 70, ILock {XFS_ILOCK_SHARED}, DqLock 70,
              IUnlock {XFS_ILOCK_SHARED}, DqPut 70,
              DqLock 5, DqUnlock 5, ILock {XFS_ILOCK_SHARED}, DqLock 5, Corrupt 0,
              IUnlock {XFS_ILOCK_SHARED}, DqPut 5,
              DqLock 100, DqUnlock 100, ILock {XFS_ILOCK_SHARED}, DqLock 100,
              IUnlock {XFS_ILOCK_SHARED}, DqPut 100],
            polls := 3, icount_reads := 2\<rparr>)"
  by (simp add: run_defs cx_lookup_ext_flag_def cx_lookup_ext_def cx_lookup_first_def
      cx_lookup_dquot_def cx_lookup_next_def cx_limit_dquot_def ex_defs)

text \<open>Claim C8 as amended. Let the checks of the data fork pass, let the iteration visit the records
  \<open>pre\<close> without stopping, and let the next record \<open>d\<close> reach the invariant checks and get
  a corruption finding from any of its checks. Then the record check still emits the
  findings of all its checks for \<open>d\<close>, the later ones included, and returns
  \<open>-ECANCELED\<close>; the iteration ends with \<open>d\<close>, whatever records \<open>post\<close> would
  follow and however the iterator would end; and \<^verbatim>\<open>xchk_quota\<close> returns 0 with the
  corrupt flag set.\<close>

theorem corruption_stops_iteration:
  assumes "xchk_quota_data_fork ext extents sc = (0, sc0)"
    and "XFS_SCRUB_OFLAG_CORRUPT \<notin> sm_flags sc0"
    and "xchk_quota_iterate ext 0 pre \<lparr>last_id = 0\<rparr> (xchk_iunlock (ilock_flags sc0) sc0) =
           (0, sqi1, sc1)"
    and "reaches_checks ext sc1 d"
    and "Corrupt (item_offset (mp sc1) d) \<in>
           set (backing_events ext (mp sc1) (last_id sqi1) d @
                invariant_findings (mp sc1) (percpu_counter_sum ext (icount_reads sc1))
                  (item_offset (mp sc1) d) d)"
  shows "fst (xchk_quota_item ext sqi1 (xfs_dqlock d sc1) d) = - ECANCELED \<and>
    fst (xchk_quota ext extents (pre @ d # post) fin sc) = 0 \<and>
    XFS_SCRUB_OFLAG_CORRUPT \<in> sm_flags (snd (xchk_quota ext extents (pre @ d # post) fin sc)) \<and>
    trace (snd (xchk_quota ext extents (pre @ d # post) fin sc)) =
      trace sc1 @ [DqLock (q_id d)] @
      backing_events ext (mp sc1) (last_id sqi1) d @
      invariant_findings (mp sc1) (percpu_counter_sum ext (icount_reads sc1))
        (item_offset (mp sc1) d) d @
      [DqPut (q_id d)]"
proof -
  let ?sc = "xfs_dqlock d sc1"
  let ?r = "xchk_quota_item ext sqi1 ?sc d"
  have r: "reaches_checks ext ?sc d"
    using assms(4) by (simp add: reaches_checks_dqlock)
  have f: "mp ?sc = mp sc1" "icount_reads ?sc = icount_reads sc1"
    "trace ?sc = trace sc1 @ [DqLock (q_id d)]"
    by (simp_all add: xfs_dqlock_def)
  have c: "XFS_SCRUB_OFLAG_CORRUPT \<in> sm_flags (snd (snd ?r))"
  proof -
    have "flag_of (Corrupt (item_offset (mp sc1) d)) \<subseteq> sm_flags (snd (snd ?r))"
      using assms(5) unfolding item_checks_flags [OF r] f by (simp only: set_map) blast
    then show ?thesis by simp
  qed
  then have e: "fst ?r = - ECANCELED"
    by (simp add: item_checks_error [OF r])
  have t: "trace (snd (snd ?r)) = trace sc1 @ [DqLock (q_id d)] @
      backing_events ext (mp sc1) (last_id sqi1) d @
      invariant_findings (mp sc1) (percpu_counter_sum ext (icount_reads sc1))
        (item_offset (mp sc1) d) d"
    by (simp add: item_checks_trace [OF r] f)
  have it: "xchk_quota_iterate ext fin (pre @ d # post) \<lparr>last_id = 0\<rparr>
      (xchk_iunlock (ilock_flags sc0) sc0) =
    (- ECANCELED, fst (snd ?r), xfs_qm_dqput d (snd (snd ?r)))"
    using assms(3) e
    by (auto simp add: iterate_append Let_def ECANCELED_def split: prod.splits)
  have q: "xchk_quota ext extents (pre @ d # post) fin sc = (0, xfs_qm_dqput d (snd (snd ?r)))"
    using assms(1,2) it
    by (simp add: xchk_quota_def Let_def xchk_fblock_process_error_def)
  from c e t q show ?thesis
    by (simp add: xfs_qm_dqput_def)
qed

text \<open>The scrub of dquots 2, 7 and 9, where dquot 7 has two defects: both are reported, dquot 9
  is not visited, the error \<open>-5\<close> that the iterator would end with is never seen, and the
  scrub returns 0.\<close>

theorem corruption_stops_iteration_witness:
  "xchk_quota_data_fork ex_ext [ex_written] ex_sc = (0, ex_sc\<lparr>polls := 1\<rparr>) \<and>
   fst (xchk_quota_iterate ex_ext 0 [ex_dquot 2] \<lparr>last_id = 0\<rparr>
          (xchk_iunlock {XFS_ILOCK_EXCL} (ex_sc\<lparr>polls := 1\<rparr>))) = 0 \<and>
   fst (xchk_quota ex_ext [ex_written] [ex_dquot 2, wit_stop_dquot, ex_dquot 9] (- 5) ex_sc) = 0 \<and>
   sm_flags (snd (xchk_quota ex_ext [ex_written] [ex_dquot 2, wit_stop_dquot, ex_dquot 9] (- 5) ex_sc))
     = {XFS_SCRUB_OFLAG_CORRUPT} \<and>
   trace (snd (xchk_quota ex_ext [ex_written] [ex_dquot 2, wit_stop_dquot, ex_dquot 9] (- 5) ex_sc)) =
     [IUnlock {XFS_ILOCK_EXCL},
      DqLock 2, DqUnlock 2, ILock {XFS_ILOCK_SHARED}, DqLock 2, IUnlock {XFS_ILOCK_SHARED}, DqPut 2,
      DqLock 7, DqUnlock 7, ILock {XFS_ILOCK_SHARED}, DqLock 7, IUnlock {XFS_ILOCK_SHARED},
      Corrupt 0, Corrupt 0, DqPut 7]"
proof -
  let ?sc0 = "ex_sc\<lparr>polls := 1\<rparr>"
  let ?it = "xchk_quota_iterate ex_ext 0 [ex_dquot 2] \<lparr>last_id = 0\<rparr>
    (xchk_iunlock (ilock_flags ?sc0) ?sc0)"
  have h1: "xchk_quota_data_fork ex_ext [ex_written] ex_sc = (0, ?sc0)"
    by (simp add: run_defs ex_defs ex_written_def)
  have h2: "XFS_SCRUB_OFLAG_CORRUPT \<notin> sm_flags ?sc0"
    by (simp add: ex_defs)
  have v: "?it = (0, \<lparr>last_id = 2\<rparr>,
      ex_sc\<lparr>ilock_flags := {}, trace := [IUnlock {XFS_ILOCK_EXCL},
        DqLock 2, DqUnlock 2, ILock {XFS_ILOCK_SHARED}, DqLock 2, IUnlock {XFS_ILOCK_SHARED},
        DqPut 2], polls := 2, icount_reads := 1\<rparr>)"
    (is "_ = (0, ?sqi1, ?sc1)")
    by (simp add: run_defs ex_defs)
  have h4: "reaches_checks ex_ext ?sc1 wit_stop_dquot"
    by (simp add: wit_stop_dquot_def cx_limit_dquot_def ex_defs finding_defs)
  have h5: "Corrupt (item_offset (mp ?sc1) wit_stop_dquot) \<in>
           set (backing_events ex_ext (mp ?sc1) (last_id ?sqi1) wit_stop_dquot @
                invariant_findings (mp ?sc1) (percpu_counter_sum ex_ext (icount_reads ?sc1))
                  (item_offset (mp ?sc1) wit_stop_dquot) wit_stop_dquot)"
    by (simp add: wit_stop_dquot_def cx_limit_dquot_def ex_defs finding_defs)
  from corruption_stops_iteration [OF h1 h2 v h4 h5, of "[ex_dquot 9]" "- 5"]
  have "fst (xchk_quota ex_ext [ex_written] ([ex_dquot 2] @ wit_stop_dquot # [ex_dquot 9]) (- 5) ex_sc) = 0"
    and "XFS_SCRUB_OFLAG_CORRUPT \<in> sm_flags (snd (xchk_quota ex_ext [ex_written] ([ex_dquot 2] @ wit_stop_dquot # [ex_dquot 9]) (- 5) ex_sc))"
    and "trace (snd (xchk_quota ex_ext [ex_written] ([ex_dquot 2] @ wit_stop_dquot # [ex_dquot 9]) (- 5) ex_sc)) =
      trace ?sc1 @ [DqLock (q_id wit_stop_dquot)] @
      backing_events ex_ext (mp ?sc1) (last_id ?sqi1) wit_stop_dquot @
      invariant_findings (mp ?sc1) (percpu_counter_sum ex_ext (icount_reads ?sc1))
        (item_offset (mp ?sc1) wit_stop_dquot) wit_stop_dquot @
      [DqPut (q_id wit_stop_dquot)]"
    by simp_all
  moreover have "sm_flags (snd (xchk_quota ex_ext [ex_written] [ex_dquot 2, wit_stop_dquot, ex_dquot 9] (- 5) ex_sc))
     \<subseteq> {XFS_SCRUB_OFLAG_CORRUPT}"
    by (simp add: run_defs ex_defs ex_written_def wit_stop_dquot_def cx_limit_dquot_def)
  ultimately show ?thesis
    using h1 v by (auto simp add: wit_stop_dquot_def cx_limit_dquot_def ex_defs finding_defs)
qed


subsection \<open>Reading the inode counter\<close>

lemma item_icount_reads:
  "icount_reads (snd (snd (xchk_quota_item ext sqi sc dq))) =
     (if reaches_checks ext sc dq then Suc (icount_reads sc) else icount_reads sc)"
proof (cases "fatal_signal_pending ext (polls sc)")
  case True
  then show ?thesis by (simp add: item_terminate reaches_checks_def)
next
  case False
  show ?thesis
  proof (cases "lookup_error ext (item_offset (mp sc) dq) dq = 0")
    case True
    with False have r: "reaches_checks ext sc dq" by (simp add: reaches_checks_def)
    then show ?thesis by (simp add: item_checks [OF r] emit_fields)
  next
    case e: False
    show ?thesis using False e
      by (simp add: item_lookup_error reaches_checks_def emit_fields split: prod.splits)
  qed
qed

lemma iterate_icount_reads:
  assumes "\<forall>n. \<not> fatal_signal_pending ext n"
    and "\<forall>d\<in>set dqs. lookup_error ext (item_offset (mp sc) d) d = 0"
    and "fst (xchk_quota_iterate ext 0 dqs sqi sc) = 0"
  shows "icount_reads (snd (snd (xchk_quota_iterate ext 0 dqs sqi sc))) =
    icount_reads sc + length dqs"
  using assms(2,3)
proof (induction dqs arbitrary: sqi sc)
  case Nil
  then show ?case by simp
next
  case (Cons dq dqs)
  obtain error sqi' sc' where it: "xchk_quota_item ext sqi (xfs_dqlock dq sc) dq = (error, sqi', sc')"
    by (cases "xchk_quota_item ext sqi (xfs_dqlock dq sc) dq") auto
  have r: "reaches_checks ext (xfs_dqlock dq sc) dq"
    using assms(1) Cons.prems(1) by (simp add: reaches_checks_def xfs_dqlock_def)
  have m: "mp (xfs_qm_dqput dq sc') = mp sc"
    using item_mp [of ext sqi "xfs_dqlock dq sc" dq] it
    by (simp add: xfs_qm_dqput_def xfs_dqlock_def)
  have n: "icount_reads (xfs_qm_dqput dq sc') = Suc (icount_reads sc)"
    using item_icount_reads [of ext sqi "xfs_dqlock dq sc" dq] it r
    by (simp add: xfs_qm_dqput_def xfs_dqlock_def)
  from Cons.prems(2) it have e: "error = 0"
    by (auto simp add: Let_def split: if_splits)
  with Cons.prems it m
  have "icount_reads (snd (snd (xchk_quota_iterate ext 0 dqs sqi' (xfs_qm_dqput dq sc')))) =
    icount_reads (xfs_qm_dqput dq sc') + length dqs"
    by (intro Cons.IH) (simp_all add: Let_def)
  with it e n show ?case by (simp add: Let_def)
qed

text \<open>Claim C9 says that the capacity values are sampled once per scrub. The inode counter
  is read once per record: two dquots with the same inode count of 50 are compared with
  two readings, 64 and then 10, so the second is reported and the first is not, and the
  counter has been read twice when the scrub returns.\<close>

theorem icount_resampled_counterexample:
  "q_ino (cx_icount_dquot 2) = q_ino (cx_icount_dquot 3) \<and>
   xchk_quota cx_icount_ext [] [cx_icount_dquot 2, cx_icount_dquot 3] 0 ex_sc =
     (0, ex_sc\<lparr>sm_flags := {XFS_SCRUB_OFLAG_CORRUPT}, ilock_flags := {},
            trace := [IUnlock {XFS_ILOCK_EXCL},
              DqLock 2, DqUnlock 2, ILock {XFS_ILOCK_SHARED}, DqLock 2,
              IUnlock {XFS_ILOCK_SHARED}, DqPut 2,
              DqLock 3, DqUnlock 3, ILock {XFS_ILOCK_SHARED}, DqLock 3,
              IUnlock {XFS_ILOCK_SHARED}, Corrupt 0, DqPut 3],
            polls := 2, icount_reads := 2\<rparr>)"
  by (simp add: run_defs cx_icount_ext_def cx_icount_dquot_def ex_defs)

text \<open>Claim C9 as amended. The record check reads the inode counter once for every record
  that reaches the invariant checks, and not at all for a record that does not; the
  inode count of the record is compared with that reading, and its block and realtime
  block counts with \<open>sb_dblocks\<close> and \<open>sb_rblocks\<close> of the mount. An iteration that
  visits all of its records, all of which reach the invariant checks, has read the
  counter once per record.\<close>

theorem icount_sampled_per_record:
  "icount_reads (snd (snd (xchk_quota_item ext sqi sc dq))) =
     (if reaches_checks ext sc dq then Suc (icount_reads sc) else icount_reads sc) \<and>
   (reaches_checks ext sc dq \<longrightarrow>
      trace (snd (snd (xchk_quota_item ext sqi sc dq))) =
        trace sc @ backing_events ext (mp sc) (last_id sqi) dq @
        limit_findings (item_offset (mp sc) dq) (sb_dblocks (mp sc)) (q_blk dq) @
        limit_findings (item_offset (mp sc) dq) (maxicount (mp sc)) (q_ino dq) @
        limit_findings (item_offset (mp sc) dq) (sb_rblocks (mp sc)) (q_rtb dq) @
        usage_findings (mp sc) (percpu_counter_sum ext (icount_reads sc))
          (item_offset (mp sc) dq) dq @
        (if q_id dq = 0 then []
         else overage_findings (item_offset (mp sc) dq) (q_blk dq) @
              overage_findings (item_offset (mp sc) dq) (q_ino dq) @
              overage_findings (item_offset (mp sc) dq) (q_rtb dq) @
              timer_findings (item_offset (mp sc) dq) (q_blk dq) @
              timer_findings (item_offset (mp sc) dq) (q_ino dq) @
              timer_findings (item_offset (mp sc) dq) (q_rtb dq))) \<and>
   ((\<forall>n. \<not> fatal_signal_pending ext n) \<and>
    (\<forall>d\<in>set dqs. lookup_error ext (item_offset (mp sc) d) d = 0) \<and>
    fst (xchk_quota_iterate ext 0 dqs sqi sc) = 0 \<longrightarrow>
      icount_reads (snd (snd (xchk_quota_iterate ext 0 dqs sqi sc))) =
        icount_reads sc + length dqs)"
    (is "?A \<and> ?B \<and> ?C")
proof -
  have a: ?A by (rule item_icount_reads)
  have b: ?B
    by (simp add: item_checks_trace invariant_findings_def split del: if_split cong: if_cong)
  have c: ?C
    using iterate_icount_reads by blast
  from a b c show ?thesis by blast
qed

text \<open>The same dquot is clean against the first reading of the counter and reported against
  the second; an iteration over three clean dquots reads the counter three times.\<close>

theorem icount_sampled_per_record_witness:
  "reaches_checks cx_icount_ext ex_sc (cx_icount_dquot 2) \<and>
   icount_reads (snd (snd (xchk_quota_item cx_icount_ext \<lparr>last_id = 0\<rparr> ex_sc (cx_icount_dquot 2)))) = 1 \<and>
   trace (snd (snd (xchk_quota_item cx_icount_ext \<lparr>last_id = 0\<rparr> ex_sc (cx_icount_dquot 2)))) =
     [DqUnlock 2, ILock {XFS_ILOCK_SHARED}, DqLock 2, IUnlock {XFS_ILOCK_SHARED}] \<and>
   trace (snd (snd (xchk_quota_item cx_icount_ext \<lparr>last_id = 0\<rparr> (ex_sc\<lparr>icount_reads := 1\<rparr>)
     (cx_icount_dquot 2)))) =
     [DqUnlock 2, ILock {XFS_ILOCK_SHARED}, DqLock 2, IUnlock {XFS_ILOCK_SHARED}, Corrupt 0] \<and>
   (\<forall>n. \<not> fatal_signal_pending ex_ext n) \<and>
   fst (xchk_quota_iterate ex_ext 0 [ex_dquot 2, ex_dquot 3, ex_dquot 4] \<lparr>last_id = 0\<rparr> ex_sc) = 0 \<and>
   icount_reads (snd (snd (xchk_quota_iterate ex_ext 0 [ex_dquot 2, ex_dquot 3, ex_dquot 4]
     \<lparr>last_id = 0\<rparr> ex_sc))) = 3"
proof -
  have h1: "reaches_checks cx_icount_ext ex_sc (cx_icount_dquot 2)"
    and h2: "reaches_checks cx_icount_ext (ex_sc\<lparr>icount_reads := 1\<rparr>) (cx_icount_dquot 2)"
    by (simp_all add: cx_icount_ext_def cx_icount_dquot_def ex_defs finding_defs)
  have v: "xchk_quota_iterate ex_ext 0 [ex_dquot 2, ex_dquot 3, ex_dquot 4] \<lparr>last_id = 0\<rparr> ex_sc =
    (0, \<lparr>last_id = 4\<rparr>, ex_sc\<lparr>trace := [
       DqLock 2, DqUnlock 2, ILock {XFS_ILOCK_SHARED}, DqLock 2, IUnlock {XFS_ILOCK_SHARED}, DqPut 2,
       DqLock 3, DqUnlock 3, ILock {XFS_ILOCK_SHARED}, DqLock 3, IUnlock {XFS_ILOCK_SHARED}, DqPut 3,
       DqLock 4, DqUnlock 4, ILock {XFS_ILOCK_SHARED}, DqLock 4, IUnlock {XFS_ILOCK_SHARED}, DqPut 4],
       polls := 3, icount_reads := 3\<rparr>)"
    by (simp add: run_defs ex_defs)
  have g: "(\<forall>n. \<not> fatal_signal_pending ex_ext n) \<and>
    (\<forall>d\<in>set [ex_dquot 2, ex_dquot 3, ex_dquot 4]. lookup_error ex_ext (item_offset (mp ex_sc) d) d = 0) \<and>
    fst (xchk_quota_iterate ex_ext 0 [ex_dquot 2, ex_dquot 3, ex_dquot 4] \<lparr>last_id = 0\<rparr> ex_sc) = 0"
    using v by (simp add: ex_defs finding_defs)
  from icount_sampled_per_record [of cx_icount_ext "\<lparr>last_id = 0\<rparr>" ex_sc "cx_icount_dquot 2" "[]"] h1
  have "icount_reads (snd (snd (xchk_quota_item cx_icount_ext \<lparr>last_id = 0\<rparr> ex_sc (cx_icount_dquot 2)))) =
      Suc (icount_reads ex_sc)"
    and "trace (snd (snd (xchk_quota_item cx_icount_ext \<lparr>last_id = 0\<rparr> ex_sc (cx_icount_dquot 2)))) =
        trace ex_sc @ backing_events cx_icount_ext (mp ex_sc) (last_id \<lparr>last_id = 0\<rparr>) (cx_icount_dquot 2) @
        limit_findings (item_offset (mp ex_sc) (cx_icount_dquot 2)) (sb_dblocks (mp ex_sc)) (q_blk (cx_icount_dquot 2)) @
        limit_findings (item_offset (mp ex_sc) (cx_icount_dquot 2)) (maxicount (mp ex_sc)) (q_ino (cx_icount_dquot 2)) @
        limit_findings (item_offset (mp ex_sc) (cx_icount_dquot 2)) (sb_rblocks (mp ex_sc)) (q_rtb (cx_icount_dquot 2)) @
        usage_findings (mp ex_sc) (percpu_counter_sum cx_icount_ext (icount_reads ex_sc))
          (item_offset (mp ex_sc) (cx_icount_dquot 2)) (cx_icount_dquot 2) @
        (if q_id (cx_icount_dquot 2) = 0 then []
         else overage_findings (item_offset (mp ex_sc) (cx_icount_dquot 2)) (q_blk (cx_icount_dquot 2)) @
              overage_findings (item_offset (mp ex_sc) (cx_icount_dquot 2)) (q_ino (cx_icount_dquot 2)) @
              overage_findings (item_offset (mp ex_sc) (cx_icount_dquot 2)) (q_rtb (cx_icount_dquot 2)) @
              timer_findings (item_offset (mp ex_sc) (cx_icount_dquot 2)) (q_blk (cx_icount_dquot 2)) @
              timer_findings (item_offset (mp ex_sc) (cx_icount_dquot 2)) (q_ino (cx_icount_dquot 2)) @
              timer_findings (item_offset (mp ex_sc) (cx_icount_dquot 2)) (q_rtb (cx_icount_dquot 2)))"
    by simp_all
  moreover
  from icount_sampled_per_record [of cx_icount_ext "\<lparr>last_id = 0\<rparr>" "ex_sc\<lparr>icount_reads := 1\<rparr>"
      "cx_icount_dquot 2" "[]"] h2
  have "trace (snd (snd (xchk_quota_item cx_icount_ext \<lparr>last_id = 0\<rparr> (ex_sc\<lparr>icount_reads := 1\<rparr>) (cx_icount_dquot 2)))) =
        trace (ex_sc\<lparr>icount_reads := 1\<rparr>) @ backing_events cx_icount_ext (mp (ex_sc\<lparr>icount_reads := 1\<rparr>)) (last_id \<lparr>last_id = 0\<rparr>) (cx_icount_dquot 2) @
        limit_findings (item_offset (mp (ex_sc\<lparr>icount_reads := 1\<rparr>)) (cx_icount_dquot 2)) (sb_dblocks (mp (ex_sc\<lparr>icount_reads := 1\<rparr>))) (q_blk (cx_icount_dquot 2)) @
        limit_findings (item_offset (mp (ex_sc\<lparr>icount_reads := 1\<rparr>)) (cx_icount_dquot 2)) (maxicount (mp (ex_sc\<lparr>icount_reads := 1\<rparr>))) (q_ino (cx_icount_dquot 2)) @
        limit_findings (item_offset (mp (ex_sc\<lparr>icount_reads := 1\<rparr>)) (cx_icount_dquot 2)) (sb_rblocks (mp (ex_sc\<lparr>icount_reads := 1\<rparr>))) (q_rtb (cx_icount_dquot 2)) @
        usage_findings (mp (ex_sc\<lparr>icount_reads := 1\<rparr>)) (percpu_counter_sum cx_icount_ext (icount_reads (ex_sc\<lparr>icount_reads := 1\<rparr>)))
          (item_offset (mp (ex_sc\<lparr>icount_reads := 1\<rparr>)) (cx_icount_dquot 2)) (cx_icount_dquot 2) @
        (if q_id (cx_icount_dquot 2) = 0 then []
         else overage_findings (item_offset (mp (ex_sc\<lparr>icount_reads := 1\<rparr>)) (cx_icount_dquot 2)) (q_blk (cx_icount_dquot 2)) @
              overage_findings (item_offset (mp (ex_sc\<lparr>icount_reads := 1\<rparr>)) (cx_icount_dquot 2)) (q_ino (cx_icount_dquot 2)) @
              overage_findings (item_offset (mp (ex_sc\<lparr>icount_reads := 1\<rparr>)) (cx_icount_dquot 2)) (q_rtb (cx_icount_dquot 2)) @
              timer_findings (item_offset (mp (ex_sc\<lparr>icount_reads := 1\<rparr>)) (cx_icount_dquot 2)) (q_blk (cx_icount_dquot 2)) @
              timer_findings (item_offset (mp (ex_sc\<lparr>icount_reads := 1\<rparr>)) (cx_icount_dquot 2)) (q_ino (cx_icount_dquot 2)) @
              timer_findings (item_offset (mp (ex_sc\<lparr>icount_reads := 1\<rparr>)) (cx_icount_dquot 2)) (q_rtb (cx_icount_dquot 2)))"
    by simp
  moreover
  from icount_sampled_per_record [of ex_ext "\<lparr>last_id = 0\<rparr>" ex_sc "ex_dquot 2"
      "[ex_dquot 2, ex_dquot 3, ex_dquot 4]"] g
  have "icount_reads (snd (snd (xchk_quota_iterate ex_ext 0 [ex_dquot 2, ex_dquot 3, ex_dquot 4]
     \<lparr>last_id = 0\<rparr> ex_sc))) = icount_reads ex_sc + length [ex_dquot 2, ex_dquot 3, ex_dquot 4]"
    by blast
  ultimately show ?thesis
    using h1 g by (simp add: cx_icount_ext_def cx_icount_dquot_def ex_defs finding_defs)
qed

end
